theory Spec2Isabelle
  imports Complex_Main "HOL-Library.Sublist"
begin

section \<open>Common JavaScript library operations\<close>

text \<open>
  The edge functions are TypeScript running on Deno. A JavaScript string is modelled as
  a \<open>string\<close>, a number that only ever holds small integers (the preference weights, the
  indices, \<open>top_k\<close>, the millisecond timestamps) as an \<open>int\<close>, and a number that may be
  fractional (the scores) as a \<open>real\<close>, that is, with the rounding of double arithmetic
  left out.
\<close>

text \<open>
  \<open>Array.prototype.indexOf\<close>: the index of the first element equal to the one searched
  for, \<open>-1\<close> when there is none.
\<close>

fun indexOf_from :: "int \<Rightarrow> 'a list \<Rightarrow> 'a \<Rightarrow> int" where
  "indexOf_from i [] x = -1"
| "indexOf_from i (y # ys) x = (if y = x then i else indexOf_from (i + 1) ys x)"

definition indexOf :: "'a list \<Rightarrow> 'a \<Rightarrow> int" where
  "indexOf xs x = indexOf_from 0 xs x"

text \<open>
  \<open>Array.prototype.slice(0, end)\<close>: a negative \<open>end\<close> counts from the end of the array,
  and the result is clamped to the array.
\<close>

definition slice0 :: "'a list \<Rightarrow> int \<Rightarrow> 'a list" where
  "slice0 xs e =
     (let len = int (length xs);
          final = (if e < 0 then max (len + e) 0 else min e len)
      in take (nat final) xs)"

text \<open>
  \<open>Array.prototype.sort(compare)\<close>: the sort is stable, and with a consistent comparator
  its result is the one of the insertion sort below. \<open>compare a b > 0\<close> puts \<open>a\<close> after
  \<open>b\<close>; elements that compare as equal keep their order.
\<close>

fun sort_insert :: "('a \<Rightarrow> 'a \<Rightarrow> 'n::{zero,linorder}) \<Rightarrow> 'a \<Rightarrow> 'a list \<Rightarrow> 'a list" where
  "sort_insert compare x [] = [x]"
| "sort_insert compare x (y # ys) =
     (if compare x y \<le> 0 then x # y # ys else y # sort_insert compare x ys)"

fun js_sort :: "('a \<Rightarrow> 'a \<Rightarrow> 'n::{zero,linorder}) \<Rightarrow> 'a list \<Rightarrow> 'a list" where
  "js_sort compare [] = []"
| "js_sort compare (x # xs) = sort_insert compare x (js_sort compare xs)"

text \<open>
  A \<open>Map<string, number>\<close> keeps its keys in insertion order: \<open>set\<close> on a key already
  present changes the value in place, \<open>set\<close> on a new key appends the entry, and
  \<open>entries()\<close> lists the entries in that order. The map is the list of its entries.
\<close>

type_synonym preferences = "(string \<times> int) list"

fun map_get :: "preferences \<Rightarrow> string \<Rightarrow> int option" where
  "map_get [] k = None"
| "map_get ((k', v) # m) k = (if k' = k then Some v else map_get m k)"

fun map_set :: "preferences \<Rightarrow> string \<Rightarrow> int \<Rightarrow> preferences" where
  "map_set [] k v = [(k, v)]"
| "map_set ((k', v') # m) k v = (if k' = k then (k, v) # m else (k', v') # map_set m k v)"

text \<open>\<open>m.get(k) || 0\<close>: an absent key (\<open>undefined\<close>) and a stored \<open>0\<close> both give \<open>0\<close>.\<close>

definition get_or_zero :: "preferences \<Rightarrow> string \<Rightarrow> int" where
  "get_or_zero m k = (case map_get m k of None \<Rightarrow> 0 | Some v \<Rightarrow> (if v = 0 then 0 else v))"


section \<open>The recommendation function: activity preference aggregation\<close>

text \<open>
  \<open>interface UserActivity\<close>; the two fields of \<open>metadata\<close> are fields of the record.
\<close>

record UserActivity =
  article_id :: string
  activity_type :: string
  dwell_time :: int
  article_category :: string
  article_source :: string

text \<open>The weight of one activity, as the \<open>if\<close>/\<open>else if\<close> chain of the loop body assigns it.\<close>

definition activity_weight :: "UserActivity \<Rightarrow> int" where
  "activity_weight activity =
     (if activity_type activity = ''click'' then 3
      else if activity_type activity = ''bookmark'' then 5
      else if activity_type activity = ''dwell'' \<and> dwell_time activity > 30 then 2
      else 1)"

text \<open>
  The loop over the activities: each record updates the category map and the source map.
\<close>

fun analyze :: "UserActivity list \<Rightarrow> preferences \<times> preferences \<Rightarrow> preferences \<times> preferences" where
  "analyze [] (categoryPreferences, sourcePreferences) =
     (categoryPreferences, sourcePreferences)"
| "analyze (activity # rest) (categoryPreferences, sourcePreferences) =
     (let category = article_category activity;
          source = article_source activity;
          weight = activity_weight activity
      in analyze rest
           (map_set categoryPreferences category
              (get_or_zero categoryPreferences category + weight),
            map_set sourcePreferences source
              (get_or_zero sourcePreferences source + weight)))"

definition categoryPreferences :: "UserActivity list \<Rightarrow> preferences" where
  "categoryPreferences activities = fst (analyze activities ([], []))"

definition sourcePreferences :: "UserActivity list \<Rightarrow> preferences" where
  "sourcePreferences activities = snd (analyze activities ([], []))"

text \<open>
  \<open>Array.from(m.entries()).sort((a, b) => b[1] - a[1]).slice(0, 3).map(([k]) => k)\<close>.
\<close>

definition by_weight_desc :: "string \<times> int \<Rightarrow> string \<times> int \<Rightarrow> int" where
  "by_weight_desc a b = snd b - snd a"

definition top_labels :: "preferences \<Rightarrow> string list" where
  "top_labels m = map fst (slice0 (js_sort by_weight_desc m) 3)"

definition topCategories :: "UserActivity list \<Rightarrow> string list" where
  "topCategories activities = top_labels (categoryPreferences activities)"

definition topSources :: "UserActivity list \<Rightarrow> string list" where
  "topSources activities = top_labels (sourcePreferences activities)"


section \<open>The recommendation function: candidate scoring\<close>

text \<open>
  \<open>interface Article\<close>. \<open>a_published_at\<close> is the instant \<open>new Date(published_at).getTime()\<close>
  gives, in milliseconds since the epoch: the column is a non-null timestamp, and the
  parsing of its text is not modelled.
\<close>

record Article =
  a_id :: string
  a_title :: string
  a_category :: string
  a_source :: string
  a_published_at :: int

text \<open>\<open>{ ...article, score }\<close>\<close>

record ScoredArticle =
  sa_article :: Article
  sa_score :: real

text \<open>
  The body of the \<open>map\<close> callback. \<open>now\<close> is the reading of \<open>Date.now()\<close> made while this
  article is scored.
\<close>

definition score_article :: "int \<Rightarrow> string list \<Rightarrow> string list \<Rightarrow> Article \<Rightarrow> ScoredArticle" where
  "score_article now topCats topSrcs article =
     (let score0 = 0;
          categoryIndex = indexOf topCats (a_category article);
          score1 = (if categoryIndex \<noteq> -1
                    then score0 + real_of_int ((3 - categoryIndex) * 10) else score0);
          sourceIndex = indexOf topSrcs (a_source article);
          score2 = (if sourceIndex \<noteq> -1
                    then score1 + real_of_int ((3 - sourceIndex) * 5) else score1);
          ageHours = real_of_int (now - a_published_at article) / (1000 * 60 * 60);
          score3 = score2 + max 0 (24 - ageHours)
      in \<lparr>sa_article = article, sa_score = score3\<rparr>)"

text \<open>
  The \<open>map\<close> over the candidates: the callback runs once per article, in order, and each
  run reads the clock; \<open>dateNow k\<close> is the reading of the \<open>k\<close>-th run.
\<close>

fun score_all :: "(nat \<Rightarrow> int) \<Rightarrow> nat \<Rightarrow> string list \<Rightarrow> string list \<Rightarrow> Article list
                  \<Rightarrow> ScoredArticle list" where
  "score_all dateNow k topCats topSrcs [] = []"
| "score_all dateNow k topCats topSrcs (article # rest) =
     score_article (dateNow k) topCats topSrcs article
       # score_all dateNow (Suc k) topCats topSrcs rest"

definition by_score_desc :: "ScoredArticle \<Rightarrow> ScoredArticle \<Rightarrow> real" where
  "by_score_desc a b = sa_score b - sa_score a"

text \<open>\<open>filter\<close>, \<open>map\<close>, \<open>sort\<close>, \<open>slice(0, 20)\<close>.\<close>

definition scoredArticles :: "(nat \<Rightarrow> int) \<Rightarrow> string list \<Rightarrow> string list \<Rightarrow> string list
                              \<Rightarrow> Article list \<Rightarrow> ScoredArticle list" where
  "scoredArticles dateNow interactedIds topCats topSrcs recentArticles =
     slice0
       (js_sort by_score_desc
          (score_all dateNow 0 topCats topSrcs
             (filter (\<lambda>article. a_id article \<notin> set interactedIds) recentArticles)))
       20"


section \<open>The recommendation function: the request handler\<close>

text \<open>
  An exception thrown inside a handler, and the answer \<open>{ data, error }\<close> of a query of
  the storage client (\<open>None\<close> is \<open>null\<close>).
\<close>

datatype exn = TypeError | Error string

record 'a QueryResult =
  data :: "'a option"
  error :: "string option"

record 'b Response =
  status :: nat
  body :: 'b

datatype rec_body =
    RecNoBody
  | RecError string
  | Recommendations "ScoredArticle list" "string list" "string list"

text \<open>
  \<open>String.prototype.replace\<close> with a string pattern replaces the first occurrence only.
\<close>

fun replace_first :: "string \<Rightarrow> string \<Rightarrow> string \<Rightarrow> string" where
  "replace_first pat rep [] = (if pat = [] then rep else [])"
| "replace_first pat rep (c # cs) =
     (if prefix pat (c # cs) then rep @ drop (length pat) (c # cs)
      else c # replace_first pat rep cs)"

text \<open>
  What the handler reads from outside: the request (its method, its \<open>Authorization\<close>
  header, \<open>None\<close> when the header is absent), the answers of the authentication and storage
  backend, and the clock. The storage client is created from the environment of the
  platform; its creation and the log lines are left out.
\<close>

record RecommendationRequest =
  req_method :: string
  req_authorization :: "string option"

record Backend =
  getUser :: "string \<Rightarrow> string option \<times> string option"
  select_activities :: "string \<Rightarrow> UserActivity list QueryResult"
  select_recent_articles :: "Article list QueryResult"
  select_interacted :: "string \<Rightarrow> string list QueryResult"
  dateNow :: "nat \<Rightarrow> int"

text \<open>
  The \<open>try\<close> block. \<open>getUser\<close> answers with the user's id (or \<open>null\<close>) and an error (or
  \<open>null\<close>). Reading a property of \<open>null\<close>, and iterating over \<open>null\<close>, throw a \<open>TypeError\<close>.
\<close>

definition recommend_try :: "Backend \<Rightarrow> RecommendationRequest \<Rightarrow> exn + rec_body Response" where
  "recommend_try be req =
     (case req_authorization req of
        None \<Rightarrow> Inl TypeError
      | Some authHeader \<Rightarrow>
         (case getUser be (replace_first ''Bearer '' [] authHeader) of
            (Some user_id, None) \<Rightarrow>
              (let activities = select_activities be user_id in
               if error activities \<noteq> None
               then Inr \<lparr>status = 500, body = RecError ''Failed to fetch user activities''\<rparr>
               else
                 (case data activities of
                    None \<Rightarrow> Inl TypeError
                  | Some acts \<Rightarrow>
                     (let topCats = topCategories acts;
                          topSrcs = topSources acts;
                          articles = select_recent_articles be in
                      if error articles \<noteq> None
                      then Inr \<lparr>status = 500, body = RecError ''Failed to fetch articles''\<rparr>
                      else
                        (let interactedIds =
                               (case data (select_interacted be user_id) of
                                  None \<Rightarrow> [] | Some ids \<Rightarrow> ids)
                         in case data articles of
                              None \<Rightarrow> Inl TypeError
                            | Some recentArticles \<Rightarrow>
                                Inr \<lparr>status = 200,
                                     body = Recommendations
                                       (scoredArticles (dateNow be) interactedIds
                                          topCats topSrcs recentArticles)
                                       topCats topSrcs\<rparr>))))
          | _ \<Rightarrow> Inr \<lparr>status = 401, body = RecError ''Unauthorized''\<rparr>))"

text \<open>The handler: the preflight answer, the \<open>try\<close> block, and the outer \<open>catch\<close>.\<close>

definition generate_recommendations :: "Backend \<Rightarrow> RecommendationRequest \<Rightarrow> rec_body Response" where
  "generate_recommendations be req =
     (if req_method req = ''OPTIONS'' then \<lparr>status = 200, body = RecNoBody\<rparr>
      else
        (case recommend_try be req of
           Inl e \<Rightarrow> \<lparr>status = 500, body = RecError ''Internal server error''\<rparr>
         | Inr response \<Rightarrow> response))"


section \<open>The news-fetch function\<close>

text \<open>
  A character is one of the 256 values of \<open>char\<close>, read as the code points U+0000 to
  U+00FF. \<open>String.prototype.toLowerCase\<close> maps the capital letters among them (A to Z,
  and U+00C0 to U+00DE without the multiplication sign U+00D7) to the letter 32 places
  further on.
\<close>

definition toLowerCase_char :: "char \<Rightarrow> char" where
  "toLowerCase_char c =
     (let n = (of_char c :: nat)
      in if (65 \<le> n \<and> n \<le> 90) \<or> (192 \<le> n \<and> n \<le> 222 \<and> n \<noteq> 215)
         then char_of (n + 32) else c)"

definition toLowerCase :: "string \<Rightarrow> string" where
  "toLowerCase s = map toLowerCase_char s"

text \<open>\<open>String.prototype.includes\<close>: the argument occurs as a contiguous substring.\<close>

fun includes_str :: "string \<Rightarrow> string \<Rightarrow> bool" where
  "includes_str [] sub = (sub = [])"
| "includes_str (c # cs) sub = (prefix sub (c # cs) \<or> includes_str cs sub)"

text \<open>
  \<open>btoa\<close>: the Base64 encoding of a string of code points below 256, three characters
  to four digits, padded with \<open>=\<close>. (On a code point above 255 \<open>btoa\<close> throws; the type
  \<open>char\<close> has none.)
\<close>

definition base64_digit :: "nat \<Rightarrow> char" where
  "base64_digit n =
     (if n < 26 then char_of (65 + n)
      else if n < 52 then char_of (97 + (n - 26))
      else if n < 62 then char_of (48 + (n - 52))
      else if n = 62 then CHR ''+'' else CHR ''/'')"

fun btoa_codes :: "nat list \<Rightarrow> string" where
  "btoa_codes [] = []"
| "btoa_codes [a] =
     [base64_digit (a div 4), base64_digit ((a mod 4) * 16), CHR ''='', CHR ''='']"
| "btoa_codes [a, b] =
     [base64_digit (a div 4), base64_digit ((a mod 4) * 16 + b div 16),
      base64_digit ((b mod 16) * 4), CHR ''='']"
| "btoa_codes (a # b # c # rest) =
     [base64_digit (a div 4), base64_digit ((a mod 4) * 16 + b div 16),
      base64_digit ((b mod 16) * 4 + c div 64), base64_digit (c mod 64)]
     @ btoa_codes rest"

definition btoa :: "string \<Rightarrow> string" where
  "btoa s = btoa_codes (map of_char s)"

definition is_alnum :: "char \<Rightarrow> bool" where
  "is_alnum c =
     (let n = (of_char c :: nat)
      in (97 \<le> n \<and> n \<le> 122) \<or> (65 \<le> n \<and> n \<le> 90) \<or> (48 \<le> n \<and> n \<le> 57))"

text \<open>\<open>interface NewsAPIArticle\<close> (\<open>n_source_name\<close> is \<open>source.name\<close>) and
  \<open>interface TransformedArticle\<close>.\<close>

record NewsAPIArticle =
  n_title :: string
  n_description :: string
  n_url :: string
  n_urlToImage :: string
  n_source_name :: string
  n_publishedAt :: string
  n_content :: string

record TransformedArticle =
  t_id :: string
  t_title :: string
  t_summary :: string
  t_content :: string
  t_url :: string
  t_image_url :: string
  t_source :: string
  t_category :: string
  t_language :: string
  t_published_at :: string

text \<open>\<open>a || b\<close> on strings: the empty string is falsy.\<close>

definition or_else :: "string \<Rightarrow> string \<Rightarrow> string" where
  "or_else a b = (if a \<noteq> [] then a else b)"

definition keep_article :: "NewsAPIArticle \<Rightarrow> bool" where
  "keep_article article =
     (n_title article \<noteq> [] \<and> n_description article \<noteq> [] \<and> n_url article \<noteq> []
      \<and> n_title article \<noteq> ''[Removed]'')"

definition transform_article :: "NewsAPIArticle \<Rightarrow> TransformedArticle" where
  "transform_article article =
     \<lparr>t_id = take 20 (filter is_alnum (btoa (n_url article))),
      t_title = n_title article,
      t_summary = or_else (n_description article) (n_title article),
      t_content = or_else (n_content article) (or_else (n_description article) []),
      t_url = n_url article,
      t_image_url = or_else (n_urlToImage article) [],
      t_source = n_source_name article,
      t_category = (if includes_str (toLowerCase (n_title article)) ''sport''
                    then ''sports'' else ''technology''),
      t_language = ''en'',
      t_published_at = n_publishedAt article\<rparr>"

definition transformedArticles :: "NewsAPIArticle list \<Rightarrow> TransformedArticle list" where
  "transformedArticles articles = map transform_article (filter keep_article articles)"

text \<open>
  The answer of the news API: whether the HTTP response is \<open>ok\<close>, and the fields
  \<open>status\<close>, \<open>message\<close> and \<open>articles\<close> of its JSON body. \<open>Inl\<close> is a rejected \<open>fetch\<close>
  or an unreadable body.
\<close>

record NewsApiAnswer =
  answer_ok :: bool
  answer_status :: string
  answer_message :: string
  answer_articles :: "NewsAPIArticle list"

datatype news_body =
    NewsNoBody
  | NewsError string
  | Articles "TransformedArticle list" nat

definition fetch_news_try :: "string option \<Rightarrow> (exn + NewsApiAnswer) \<Rightarrow> exn + news_body Response" where
  "fetch_news_try newsApiKey fetched =
     (if newsApiKey = None \<or> newsApiKey = Some []
      then Inr \<lparr>status = 500, body = NewsError ''API key not configured''\<rparr>
      else
        (case fetched of
           Inl e \<Rightarrow> Inl e
         | Inr response \<Rightarrow>
            if \<not> answer_ok response
            then Inr \<lparr>status = 500, body = NewsError ''Failed to fetch news''\<rparr>
            else if answer_status response \<noteq> ''ok''
            then Inr \<lparr>status = 500,
                      body = NewsError (or_else (answer_message response) ''NewsAPI error'')\<rparr>
            else
              (let transformed = transformedArticles (answer_articles response)
               in Inr \<lparr>status = 200, body = Articles transformed (length transformed)\<rparr>)))"

definition fetch_news :: "string \<Rightarrow> string option \<Rightarrow> (exn + NewsApiAnswer) \<Rightarrow> news_body Response" where
  "fetch_news request_method newsApiKey fetched =
     (if request_method = ''OPTIONS'' then \<lparr>status = 200, body = NewsNoBody\<rparr>
      else
        (case fetch_news_try newsApiKey fetched of
           Inl e \<Rightarrow> \<lparr>status = 500, body = NewsError ''Internal server error''\<rparr>
         | Inr response \<Rightarrow> response))"


section \<open>The semantic search function\<close>

text \<open>
  \<open>String.prototype.trim\<close> removes white space and line terminators from both ends; among
  the code points below 256 these are TAB, LF, VT, FF, CR, SPACE and the no-break space
  U+00A0.
\<close>

definition is_space :: "char \<Rightarrow> bool" where
  "is_space c = ((of_char c :: nat) \<in> {9, 10, 11, 12, 13, 32, 160})"

definition trim :: "string \<Rightarrow> string" where
  "trim s = rev (dropWhile is_space (rev (dropWhile is_space s)))"

text \<open>
  \<open>interface RequestBody\<close>; a field that is absent or \<open>null\<close> is \<open>None\<close>.
  \<open>req_json\<close> is the outcome of \<open>req.json()\<close>, \<open>None\<close> when it rejects.
\<close>

record RequestBody =
  query :: "string option"
  top_k :: "int option"

record SearchRequest =
  search_method :: string
  req_json :: "RequestBody option"

text \<open>A row of \<open>news_articles\<close> as the fallback selects it, and a scored result.\<close>

record Candidate =
  c_id :: string
  c_title :: string
  c_url :: string
  c_category :: string
  c_source :: string
  c_published_at :: string
  c_embedding :: "real list option"

record ScoredCandidate =
  s_id :: string
  s_title :: string
  s_url :: string
  s_category :: string
  s_source :: string
  s_published_at :: string
  s_score :: real

text \<open>
  The answer of \<open>supabase.rpc('match_news', ...)\<close>: the call throws, or answers with
  \<open>{ data, error }\<close>, where \<open>data\<close> is \<open>Some rows\<close> exactly when it is an array.
\<close>

datatype 'r rpc_outcome = RpcThrows | RpcAnswer "'r list option" "string option"

text \<open>
  What the handler reads from outside. \<open>cosineSimilarity\<close> is the function imported from
  the statistics library, which is not part of the repository: \<open>None\<close> is a call that
  throws. \<open>embeddings_api\<close> is the answer of the embedding provider to a text: the
  embedding, or \<open>Inl\<close> when the request is rejected or the response is not \<open>ok\<close>.
\<close>

record 'r SearchBackend =
  OPENAI_API_KEY :: "string option"
  EMBEDDING_API_KEY :: "string option"
  embeddings_api :: "string \<Rightarrow> exn + real list"
  rpc_match_news :: "real list \<Rightarrow> int \<Rightarrow> 'r rpc_outcome"
  select_candidates :: "Candidate list QueryResult"
  cosineSimilarity :: "real list \<Rightarrow> real list \<Rightarrow> real option"

text \<open>The calls to external services a request makes, in order.\<close>

datatype call = EmbeddingRequest string | RpcMatchNews | SelectCandidates

datatype 'r search_body =
    SearchNoBody
  | SearchError string exn
  | RpcRecommendations "'r list"
  | ScoredRecommendations "ScoredCandidate list"

definition getOpenAIEmbedding :: "'r SearchBackend \<Rightarrow> string \<Rightarrow> call list
                                  \<Rightarrow> (exn + real list) \<times> call list" where
  "getOpenAIEmbedding be txt calls =
     (let apiKey = (case OPENAI_API_KEY be of Some k \<Rightarrow> Some k | None \<Rightarrow> EMBEDDING_API_KEY be)
      in if apiKey = None \<or> apiKey = Some []
         then (Inl (Error ''Missing OPENAI_API_KEY (or EMBEDDING_API_KEY) in env''), calls)
         else (embeddings_api be txt, calls @ [EmbeddingRequest txt]))"

definition has_embedding :: "Candidate \<Rightarrow> bool" where
  "has_embedding a = (c_embedding a \<noteq> None)"

text \<open>The \<open>map\<close> callback of the fallback, with its \<open>try\<close>/\<open>catch\<close> around the similarity.\<close>

definition score_candidate :: "(real list \<Rightarrow> real list \<Rightarrow> real option) \<Rightarrow> real list
                               \<Rightarrow> Candidate \<Rightarrow> ScoredCandidate" where
  "score_candidate cosine queryEmbedding a =
     (let emb = (case c_embedding a of Some e \<Rightarrow> e | None \<Rightarrow> []);
          sim = (case cosine queryEmbedding emb of Some s \<Rightarrow> s | None \<Rightarrow> 0)
      in \<lparr>s_id = c_id a, s_title = c_title a, s_url = c_url a, s_category = c_category a,
          s_source = c_source a, s_published_at = c_published_at a, s_score = sim\<rparr>)"

definition by_similarity_desc :: "ScoredCandidate \<Rightarrow> ScoredCandidate \<Rightarrow> real" where
  "by_similarity_desc x y = s_score y - s_score x"

text \<open>The fallback before its truncation, and with it.\<close>

definition ranked :: "(real list \<Rightarrow> real list \<Rightarrow> real option) \<Rightarrow> real list
                      \<Rightarrow> Candidate list \<Rightarrow> ScoredCandidate list" where
  "ranked cosine queryEmbedding candidates =
     js_sort by_similarity_desc
       (map (score_candidate cosine queryEmbedding) (filter has_embedding candidates))"

definition scored :: "(real list \<Rightarrow> real list \<Rightarrow> real option) \<Rightarrow> real list
                      \<Rightarrow> Candidate list \<Rightarrow> int \<Rightarrow> ScoredCandidate list" where
  "scored cosine queryEmbedding candidates k =
     slice0 (ranked cosine queryEmbedding candidates) k"

text \<open>Step 3 of the handler: the in-memory fallback.\<close>

definition fallback :: "'r SearchBackend \<Rightarrow> real list \<Rightarrow> int \<Rightarrow> call list
                        \<Rightarrow> (exn + 'r search_body Response) \<times> call list" where
  "fallback be queryEmbedding k calls =
     (let answer = select_candidates be;
          calls' = calls @ [SelectCandidates]
      in case error answer of
           Some e \<Rightarrow> (Inl (Error e), calls')
         | None \<Rightarrow>
            (case data answer of
               None \<Rightarrow> (Inr \<lparr>status = 200, body = ScoredRecommendations []\<rparr>, calls')
             | Some candidates \<Rightarrow>
                if candidates = []
                then (Inr \<lparr>status = 200, body = ScoredRecommendations []\<rparr>, calls')
                else (Inr \<lparr>status = 200,
                           body = ScoredRecommendations
                             (scored (cosineSimilarity be) queryEmbedding candidates k)\<rparr>,
                      calls')))"

text \<open>The \<open>try\<close> block of the handler.\<close>

definition bert_search_try :: "'r SearchBackend \<Rightarrow> SearchRequest
                               \<Rightarrow> (exn + 'r search_body Response) \<times> call list" where
  "bert_search_try be req =
     (let body = (case req_json req of Some b \<Rightarrow> b | None \<Rightarrow> \<lparr>query = None, top_k = None\<rparr>);
          q = trim (case query body of Some s \<Rightarrow> s | None \<Rightarrow> []);
          k = (case top_k body of Some n \<Rightarrow> n | None \<Rightarrow> 10)
      in if q = [] then (Inr \<lparr>status = 200, body = ScoredRecommendations []\<rparr>, [])
         else
           (case getOpenAIEmbedding be q [] of
              (Inl e, calls) \<Rightarrow> (Inl e, calls)
            | (Inr queryEmbedding, calls) \<Rightarrow>
               (case rpc_match_news be queryEmbedding k of
                  RpcAnswer (Some rpcData) None \<Rightarrow>
                    if rpcData \<noteq> []
                    then (Inr \<lparr>status = 200, body = RpcRecommendations rpcData\<rparr>,
                          calls @ [RpcMatchNews])
                    else fallback be queryEmbedding k (calls @ [RpcMatchNews])
                | _ \<Rightarrow> fallback be queryEmbedding k (calls @ [RpcMatchNews]))))"

definition bert_search :: "'r SearchBackend \<Rightarrow> SearchRequest
                           \<Rightarrow> 'r search_body Response \<times> call list" where
  "bert_search be req =
     (if search_method req = ''OPTIONS'' then (\<lparr>status = 200, body = SearchNoBody\<rparr>, [])
      else
        (case bert_search_try be req of
           (Inl e, calls) \<Rightarrow>
             (\<lparr>status = 500, body = SearchError ''Internal server error'' e\<rparr>, calls)
         | (Inr response, calls) \<Rightarrow> (response, calls)))"

section \<open>Notions of the specification\<close>

text \<open>
  The accumulated weight of a label, in the specification's words: the sum of the weights
  of the activity records that carry the label. \<open>label\<close> is \<open>article_category\<close> or
  \<open>article_source\<close>.
\<close>

definition accumulated_weight :: "(UserActivity \<Rightarrow> string) \<Rightarrow> UserActivity list \<Rightarrow> string \<Rightarrow> int" where
  "accumulated_weight label activities k =
     sum_list (map activity_weight (filter (\<lambda>a. label a = k) activities))"

text \<open>
  The position at which a label is first encountered in a list of labels; it is also the
  0-indexed rank of the label in a ranked list.
\<close>

definition first_encounter :: "'a list \<Rightarrow> 'a \<Rightarrow> nat" where
  "first_encounter labels k = length (takeWhile (\<lambda>l. l \<noteq> k) labels)"

text \<open>
  The order of the ranking, in the specification's words: descending accumulated weight,
  ties broken by encounter order. A label ranks before another when it is heavier, or as
  heavy and first encountered earlier.
\<close>

definition ranks_before :: "(UserActivity \<Rightarrow> string) \<Rightarrow> UserActivity list \<Rightarrow> string \<Rightarrow> string \<Rightarrow> bool" where
  "ranks_before label activities a b =
     (accumulated_weight label activities b < accumulated_weight label activities a
      \<or> (accumulated_weight label activities a = accumulated_weight label activities b
         \<and> first_encounter (map label activities) a < first_encounter (map label activities) b))"

text \<open>The loop of \<open>analyze\<close> on one of its two maps.\<close>

fun accumulate :: "(UserActivity \<Rightarrow> string) \<Rightarrow> UserActivity list \<Rightarrow> preferences \<Rightarrow> preferences" where
  "accumulate label [] m = m"
| "accumulate label (a # rest) m =
     accumulate label rest (map_set m (label a) (get_or_zero m (label a) + activity_weight a))"

text \<open>
  The three parts of the recommendation score, in the specification's words: the points of
  the rank at which the article's label appears in a ranked list (\<open>(3 - i) * points\<close> at
  rank \<open>i\<close>, nothing when it does not appear), and the recency score
  \<open>max(0, 24 - ageInHours)\<close>.
\<close>

definition rank_score :: "string list \<Rightarrow> string \<Rightarrow> int \<Rightarrow> real" where
  "rank_score ranking label points =
     (if label \<in> set ranking
      then real_of_int ((3 - int (first_encounter ranking label)) * points) else 0)"

definition categoryScore :: "string list \<Rightarrow> Article \<Rightarrow> real" where
  "categoryScore topCats article = rank_score topCats (a_category article) 10"

definition sourceScore :: "string list \<Rightarrow> Article \<Rightarrow> real" where
  "sourceScore topSrcs article = rank_score topSrcs (a_source article) 5"

definition ageInHours :: "int \<Rightarrow> Article \<Rightarrow> real" where
  "ageInHours now article = real_of_int (now - a_published_at article) / 3600000"

definition recencyScore :: "int \<Rightarrow> Article \<Rightarrow> real" where
  "recencyScore now article = max 0 (24 - ageInHours now article)"

text \<open>
  The query and the result limit a search request asks for (\<open>body.query || ''\<close> and
  \<open>body.top_k ?? 10\<close>), and the number of results in a response.
\<close>

definition requested_query :: "SearchRequest \<Rightarrow> string" where
  "requested_query req =
     (case req_json req of
        None \<Rightarrow> []
      | Some b \<Rightarrow> (case query b of None \<Rightarrow> [] | Some s \<Rightarrow> s))"

definition requested_top_k :: "SearchRequest \<Rightarrow> int" where
  "requested_top_k req =
     (case req_json req of
        None \<Rightarrow> 10
      | Some b \<Rightarrow> (case top_k b of None \<Rightarrow> 10 | Some n \<Rightarrow> n))"

definition search_output_length :: "'r search_body Response \<Rightarrow> nat" where
  "search_output_length response =
     (case body response of
        RpcRecommendations rows \<Rightarrow> length rows
      | ScoredRecommendations results \<Rightarrow> length results
      | _ \<Rightarrow> 0)"


definition recommendation_output_length :: "rec_body Response \<Rightarrow> nat" where
  "recommendation_output_length response =
     (case body response of Recommendations recs tc ts \<Rightarrow> length recs | _ \<Rightarrow> 0)"

text \<open>
  Modelled from the spec: the function \<open>cosineSimilarity\<close> that the search handler imports
  from a statistics library is not part of the repository. The glossary describes it as a
  score in \<open>[-1, 1]\<close> measuring the angle between two vectors, independent of magnitude:
  the dot product over the product of the norms. Vectors of different lengths, and a zero
  vector, have no angle; the model takes the computation to fail on them. The handler
  itself is modelled for any such function; this one is used in the examples only.
\<close>

definition dot :: "real list \<Rightarrow> real list \<Rightarrow> real" where
  "dot x y = sum_list (map2 (\<lambda>a b. a * b) x y)"

definition cosine_model :: "real list \<Rightarrow> real list \<Rightarrow> real option" where
  "cosine_model x y =
     (if length x \<noteq> length y \<or> dot x x = 0 \<or> dot y y = 0 then None
      else Some (dot x y / (sqrt (dot x x) * sqrt (dot y y))))"


section \<open>Example inputs\<close>

definition tied_activities :: "UserActivity list" where
  "tied_activities =
     [\<lparr>article_id = ''a1'', activity_type = ''view'', dwell_time = 0,
       article_category = ''technology'', article_source = ''BBC News''\<rparr>,
      \<lparr>article_id = ''a2'', activity_type = ''scroll'', dwell_time = 0,
       article_category = ''sports'', article_source = ''CNN''\<rparr>]"

text \<open>Four views of four categories and four sources: a four-way tie.\<close>

definition four_tie_activities :: "UserActivity list" where
  "four_tie_activities =
     [\<lparr>article_id = ''a1'', activity_type = ''view'', dwell_time = 0,
       article_category = ''technology'', article_source = ''TechCrunch''\<rparr>,
      \<lparr>article_id = ''a2'', activity_type = ''view'', dwell_time = 0,
       article_category = ''sports'', article_source = ''BBC News''\<rparr>,
      \<lparr>article_id = ''a3'', activity_type = ''view'', dwell_time = 0,
       article_category = ''world'', article_source = ''Reuters''\<rparr>,
      \<lparr>article_id = ''a4'', activity_type = ''view'', dwell_time = 0,
       article_category = ''health'', article_source = ''The Guardian''\<rparr>]"

definition scroll_activity :: UserActivity where
  "scroll_activity =
     \<lparr>article_id = ''a2'', activity_type = ''scroll'', dwell_time = 45,
      article_category = ''sports'', article_source = ''CNN''\<rparr>"

definition sports_article :: Article where
  "sports_article =
     \<lparr>a_id = ''a3'', a_title = ''Olympic Training Revolution'',
      a_category = ''sports'', a_source = ''CNN'', a_published_at = 28800000\<rparr>"

definition example_articles :: "Article list" where
  "example_articles =
     [\<lparr>a_id = ''a1'', a_title = ''Tech Giants Report Strong Q4 Earnings'',
       a_category = ''technology'', a_source = ''CNN'', a_published_at = 32400000\<rparr>,
      \<lparr>a_id = ''a3'', a_title = ''Olympic Training Revolution'',
       a_category = ''sports'', a_source = ''CNN'', a_published_at = 28800000\<rparr>]"

text \<open>
  A backend that knows one user, whose history holds the articles \<open>a1\<close> and \<open>a2\<close>, and a
  clock that stands ten hours after the epoch.
\<close>

definition example_backend :: Backend where
  "example_backend =
     \<lparr>getUser = (\<lambda>token. if token = ''secret'' then (Some ''user-1'', None)
                           else (None, Some ''invalid token'')),
      select_activities = (\<lambda>user_id. \<lparr>data = Some tied_activities, error = None\<rparr>),
      select_recent_articles = \<lparr>data = Some example_articles, error = None\<rparr>,
      select_interacted = (\<lambda>user_id. \<lparr>data = Some [''a1'', ''a2''], error = None\<rparr>),
      dateNow = (\<lambda>k. 36000000 + int k)\<rparr>"


definition example_request :: RecommendationRequest where
  "example_request = \<lparr>req_method = ''POST'', req_authorization = Some ''Bearer secret''\<rparr>"

definition anonymous_request :: RecommendationRequest where
  "anonymous_request = \<lparr>req_method = ''POST'', req_authorization = None\<rparr>"

text \<open>
  Search candidates that differ in their identifier and embedding only, with the results
  they become, and a search backend: the embedding of every query is \<open>[1]\<close>, the
  \<open>match_news\<close> function is not installed, and two candidates are stored, one whose
  embedding points away from the query and one whose embedding has another dimension
  than the query's.
\<close>

definition example_candidate :: "string \<Rightarrow> real list option \<Rightarrow> Candidate" where
  "example_candidate i e =
     \<lparr>c_id = i, c_title = ''Olympic Training Revolution'', c_url = ''https://example.com/vr-olympics'',
      c_category = ''sports'', c_source = ''BBC News'', c_published_at = ''2025-01-01T00:00:00Z'',
      c_embedding = e\<rparr>"

definition example_scored :: "string \<Rightarrow> real \<Rightarrow> ScoredCandidate" where
  "example_scored i s =
     \<lparr>s_id = i, s_title = ''Olympic Training Revolution'', s_url = ''https://example.com/vr-olympics'',
      s_category = ''sports'', s_source = ''BBC News'', s_published_at = ''2025-01-01T00:00:00Z'',
      s_score = s\<rparr>"

definition example_search_backend :: "unit SearchBackend" where
  "example_search_backend =
     \<lparr>OPENAI_API_KEY = Some ''key'', EMBEDDING_API_KEY = None,
      embeddings_api = (\<lambda>txt. Inr [1]),
      rpc_match_news = (\<lambda>q k. RpcAnswer None (Some ''function match_news does not exist'')),
      select_candidates =
        \<lparr>data = Some [example_candidate ''opposite'' (Some [-1]),
                      example_candidate ''broken'' (Some [1, 0])],
         error = None\<rparr>,
      cosineSimilarity = cosine_model\<rparr>"

definition search_request :: "string \<Rightarrow> int option \<Rightarrow> SearchRequest" where
  "search_request q k =
     \<lparr>search_method = ''POST'', req_json = Some \<lparr>query = Some q, top_k = k\<rparr>\<rparr>"

text \<open>The same backend with a \<open>match_news\<close> that returns \<open>match_count\<close> of three rows.\<close>

definition indexed_backend :: "unit SearchBackend" where
  "indexed_backend =
     example_search_backend
       \<lparr>rpc_match_news := (\<lambda>q k. RpcAnswer (Some (take (nat k) [(), (), ()])) None)\<rparr>"

text \<open>The same backend with a \<open>match_news\<close> that ignores \<open>match_count\<close>.\<close>

definition overfull_backend :: "unit SearchBackend" where
  "overfull_backend =
     example_search_backend
       \<lparr>rpc_match_news := (\<lambda>q k. RpcAnswer (Some [(), (), ()]) None)\<rparr>"

text \<open>An article of the news API whose title has the word with a capital letter.\<close>

definition sports_day :: NewsAPIArticle where
  "sports_day =
     \<lparr>n_title = ''Sports Day Returns'', n_description = ''Schools bring back the annual event.'',
      n_url = ''https://example.com/sports-day'', n_urlToImage = [],
      n_source_name = ''BBC News'', n_publishedAt = ''2025-01-01T00:00:00Z'', n_content = []\<rparr>"

definition news_answer :: "NewsAPIArticle list \<Rightarrow> exn + NewsApiAnswer" where
  "news_answer articles =
     Inr \<lparr>answer_ok = True, answer_status = ''ok'', answer_message = [],
          answer_articles = articles\<rparr>"

section \<open>Lemmas: sorting and slicing\<close>

lemma set_sort_insert: "set (sort_insert cmp x ys) = insert x (set ys)"
  by (induction ys) auto

lemma length_sort_insert: "length (sort_insert cmp x ys) = Suc (length ys)"
  by (induction ys) auto

lemma set_js_sort: "set (js_sort cmp xs) = set xs"
  by (induction xs) (auto simp: set_sort_insert)

lemma length_js_sort: "length (js_sort cmp xs) = length xs"
  by (induction xs) (auto simp: length_sort_insert)

lemma slice0_take: "\<exists>n. slice0 xs e = take n xs"
  by (auto simp: slice0_def Let_def)

lemma set_slice0: "set (slice0 xs e) \<subseteq> set xs"
  by (auto simp: slice0_def Let_def dest: in_set_takeD)

lemma length_slice0_nonneg: "0 \<le> e \<Longrightarrow> int (length (slice0 xs e)) \<le> e"
  by (auto simp: slice0_def Let_def)

lemma slice0_nonneg: "0 \<le> e \<Longrightarrow> slice0 xs e = take (nat e) xs"
  by (auto simp: slice0_def Let_def min_def)

lemma slice0_neg: "e < 0 \<Longrightarrow> slice0 xs e = take (length xs - nat (- e)) xs"
  by (auto simp: slice0_def Let_def max_def intro!: arg_cong2[where f=take])

text \<open>Sorting in descending order of a key, ties in the order of a position.\<close>

lemma sort_insert_sorted:
  fixes cmp :: "'a \<Rightarrow> 'a \<Rightarrow> 'n::{zero,linorder}" and key :: "'a \<Rightarrow> 'k::linorder"
  assumes cmp: "\<And>a b. cmp a b \<le> 0 \<longleftrightarrow> key b \<le> key a"
    and "sorted_wrt (\<lambda>p q. key q < key p \<or> (key p = key q \<and> pos p < (pos q :: nat))) ys"
    and "\<forall>y \<in> set ys. pos x < pos y"
  shows "sorted_wrt (\<lambda>p q. key q < key p \<or> (key p = key q \<and> pos p < pos q)) (sort_insert cmp x ys)"
  using assms(2,3)
proof (induction ys)
  case Nil
  then show ?case by simp
next
  case (Cons y ys)
  show ?case
  proof (cases "cmp x y \<le> 0")
    case True
    then have "key y \<le> key x" using cmp by simp
    with Cons.prems show ?thesis using True by (auto simp: le_less)
  next
    case False
    then have "key x < key y" using cmp by (simp add: not_le)
    with Cons show ?thesis using False by (auto simp: set_sort_insert)
  qed
qed

lemma js_sort_sorted:
  fixes cmp :: "'a \<Rightarrow> 'a \<Rightarrow> 'n::{zero,linorder}" and key :: "'a \<Rightarrow> 'k::linorder"
  assumes cmp: "\<And>a b. cmp a b \<le> 0 \<longleftrightarrow> key b \<le> key a"
    and "sorted_wrt (\<lambda>p q. pos p < (pos q :: nat)) xs"
  shows "sorted_wrt (\<lambda>p q. key q < key p \<or> (key p = key q \<and> pos p < pos q)) (js_sort cmp xs)"
  using assms(2)
proof (induction xs)
  case Nil
  then show ?case by simp
next
  case (Cons x xs)
  then show ?case
    by (auto intro!: sort_insert_sorted[where key=key and pos=pos] simp: cmp set_js_sort)
qed

lemma sort_insert_descending:
  fixes cmp :: "'a \<Rightarrow> 'a \<Rightarrow> 'n::{zero,linorder}" and key :: "'a \<Rightarrow> 'k::linorder"
  assumes cmp: "\<And>a b. cmp a b \<le> 0 \<longleftrightarrow> key b \<le> key a"
    and "sorted_wrt (\<lambda>p q. key q \<le> key p) ys"
  shows "sorted_wrt (\<lambda>p q. key q \<le> key p) (sort_insert cmp x ys)"
  using assms(2)
proof (induction ys)
  case Nil
  then show ?case by simp
next
  case (Cons y ys)
  show ?case
  proof (cases "cmp x y \<le> 0")
    case True
    then have "key y \<le> key x" using cmp by simp
    with Cons.prems show ?thesis using True by auto
  next
    case False
    then have "key x < key y" using cmp by (simp add: not_le)
    with Cons show ?thesis using False by (auto simp: set_sort_insert)
  qed
qed

lemma js_sort_descending:
  fixes cmp :: "'a \<Rightarrow> 'a \<Rightarrow> 'n::{zero,linorder}" and key :: "'a \<Rightarrow> 'k::linorder"
  assumes cmp: "\<And>a b. cmp a b \<le> 0 \<longleftrightarrow> key b \<le> key a"
  shows "sorted_wrt (\<lambda>p q. key q \<le> key p) (js_sort cmp xs)"
  by (induction xs) (auto intro: sort_insert_descending[where key=key] simp: cmp)

section \<open>Lemmas: the insertion-ordered map\<close>

lemma keys_map_set:
  "map fst (map_set m k v) = (if k \<in> set (map fst m) then map fst m else map fst m @ [k])"
  by (induction m) (auto simp: rev_image_eqI)

lemma map_get_map_set: "map_get (map_set m k v) k' = (if k' = k then Some v else map_get m k')"
  by (induction m) auto

lemma map_get_None: "map_get m k = None \<longleftrightarrow> k \<notin> fst ` set m"
  by (induction m k rule: map_get.induct) auto

lemma map_get_distinct: "distinct (map fst m) \<Longrightarrow> (k, v) \<in> set m \<Longrightarrow> map_get m k = Some v"
  by (induction m) (auto simp: rev_image_eqI)

lemma map_get_in_set: "map_get m k = Some v \<Longrightarrow> (k, v) \<in> set m"
  by (induction m) (auto split: if_splits)

lemma get_or_zero_eq: "get_or_zero m k = (case map_get m k of None \<Rightarrow> 0 | Some v \<Rightarrow> v)"
  by (simp add: get_or_zero_def split: option.splits)

section \<open>Lemmas: the aggregation loop\<close>

lemma analyze_accumulate:
  "analyze acts (cp, sp) = (accumulate article_category acts cp, accumulate article_source acts sp)"
  by (induction acts arbitrary: cp sp) (simp_all add: Let_def)

lemma categoryPreferences_accumulate:
  "categoryPreferences acts = accumulate article_category acts []"
  by (simp add: categoryPreferences_def analyze_accumulate)

lemma sourcePreferences_accumulate:
  "sourcePreferences acts = accumulate article_source acts []"
  by (simp add: sourcePreferences_def analyze_accumulate)

lemma accumulate_snoc:
  "accumulate label (acts @ [a]) m =
     map_set (accumulate label acts m) (label a)
       (get_or_zero (accumulate label acts m) (label a) + activity_weight a)"
  by (induction acts arbitrary: m) simp_all

lemma activity_weight_pos: "1 \<le> activity_weight a"
  by (simp add: activity_weight_def)

lemma accumulated_weight_snoc:
  "accumulated_weight label (acts @ [a]) k =
     accumulated_weight label acts k + (if label a = k then activity_weight a else 0)"
  by (simp add: accumulated_weight_def)

lemma accumulated_weight_nonneg: "0 \<le> accumulated_weight label acts k"
proof (induction acts)
  case Nil
  then show ?case by (simp add: accumulated_weight_def)
next
  case (Cons a acts)
  then show ?case
    using activity_weight_pos[of a] by (simp add: accumulated_weight_def)
qed

lemma accumulated_weight_pos:
  "k \<in> label ` set acts \<Longrightarrow> 1 \<le> accumulated_weight label acts k"
proof (induction acts rule: rev_induct)
  case Nil
  then show ?case by simp
next
  case (snoc a acts)
  show ?case
    using snoc activity_weight_pos[of a] accumulated_weight_nonneg[of label acts k]
    by (cases "label a = k") (auto simp: accumulated_weight_snoc)
qed

lemma accumulated_weight_absent:
  "k \<notin> label ` set acts \<Longrightarrow> accumulated_weight label acts k = 0"
  by (induction acts) (auto simp: accumulated_weight_def)

lemma keys_accumulate:
  "set (map fst (accumulate label acts [])) = label ` set acts"
  by (induction acts rule: rev_induct) (auto simp: accumulate_snoc keys_map_set)

lemma map_get_accumulate:
  "map_get (accumulate label acts []) k =
     (if k \<in> label ` set acts then Some (accumulated_weight label acts k) else None)"
proof (induction acts rule: rev_induct)
  case Nil
  then show ?case by simp
next
  case (snoc a acts)
  show ?case
  proof (cases "k = label a")
    case True
    then show ?thesis
      using snoc
      by (auto simp: accumulate_snoc map_get_map_set get_or_zero_eq accumulated_weight_snoc
          accumulated_weight_absent)
  next
    case False
    then show ?thesis
      using snoc by (auto simp: accumulate_snoc map_get_map_set accumulated_weight_snoc)
  qed
qed

lemma first_encounter_append:
  "k \<in> set ls \<Longrightarrow> first_encounter (ls @ ms) k = first_encounter ls k"
  by (simp add: first_encounter_def takeWhile_append1)

lemma first_encounter_less: "k \<in> set ls \<Longrightarrow> first_encounter ls k < length ls"
  by (induction ls) (auto simp: first_encounter_def)

lemma first_encounter_new: "k \<notin> set ls \<Longrightarrow> first_encounter (ls @ [k]) k = length ls"
  by (induction ls) (auto simp: first_encounter_def)

lemma keys_accumulate_ordered:
  "sorted_wrt (\<lambda>a b. first_encounter (map label acts) a < first_encounter (map label acts) b)
     (map fst (accumulate label acts []))"
proof (induction acts rule: rev_induct)
  case Nil
  then show ?case by simp
next
  case (snoc a acts)
  let ?m = "accumulate label acts []"
  have keys: "fst ` set ?m = label ` set acts"
    using keys_accumulate[of label acts] by simp
  have old: "sorted_wrt (\<lambda>x y. first_encounter (map label (acts @ [a])) x
                               < first_encounter (map label (acts @ [a])) y) (map fst ?m)"
    by (rule sorted_wrt_mono_rel[OF _ snoc.IH]) (simp add: keys first_encounter_append)
  show ?case
  proof (cases "label a \<in> set (map fst ?m)")
    case True
    then show ?thesis using old by (simp add: accumulate_snoc keys_map_set)
  next
    case False
    then have new: "label a \<notin> set (map label acts)" using keys by simp
    have less: "first_encounter (map label acts) x < length (map label acts)"
      if "x \<in> label ` set acts" for x
      using that by (intro first_encounter_less) simp
    have "\<forall>x \<in> set (map fst ?m). first_encounter (map label (acts @ [a])) x
            < first_encounter (map label (acts @ [a])) (label a)"
      using first_encounter_new[OF new] less
      by (simp add: keys first_encounter_append)
    then show ?thesis using old False
      by (simp add: accumulate_snoc keys_map_set sorted_wrt_append)
  qed
qed

lemma sorted_wrt_less_distinct:
  "sorted_wrt (\<lambda>a b. (f a :: nat) < f b) xs \<Longrightarrow> distinct xs"
  by (induction xs) auto

lemma accumulate_distinct: "distinct (map fst (accumulate label acts []))"
  using keys_accumulate_ordered by (rule sorted_wrt_less_distinct)

lemma accumulate_entry:
  assumes "(k, v) \<in> set (accumulate label acts [])"
  shows "k \<in> label ` set acts \<and> v = accumulated_weight label acts k"
proof -
  have "map_get (accumulate label acts []) k = Some v"
    using assms accumulate_distinct by (rule map_get_distinct[rotated])
  then show ?thesis by (simp add: map_get_accumulate split: if_splits)
qed

lemma by_weight_desc_cmp: "by_weight_desc a b \<le> 0 \<longleftrightarrow> snd b \<le> snd a"
  by (simp add: by_weight_desc_def)



section \<open>Lemmas: scoring and the recommendation handler\<close>

lemma indexOf_from_first_encounter:
  "indexOf_from i xs x = (if x \<in> set xs then i + int (first_encounter xs x) else -1)"
  by (induction xs arbitrary: i) (auto simp: first_encounter_def)

lemma indexOf_first_encounter:
  "indexOf xs x = (if x \<in> set xs then int (first_encounter xs x) else -1)"
  by (simp add: indexOf_def indexOf_from_first_encounter)

lemma first_encounter_nth:
  "distinct xs \<Longrightarrow> i < length xs \<Longrightarrow> first_encounter xs (xs ! i) = i"
proof (induction xs arbitrary: i)
  case Nil
  then show ?case by simp
next
  case (Cons y ys)
  then show ?case by (cases i) (auto simp: first_encounter_def)
qed

lemma score_article_formula:
  "sa_score (score_article now tc ts a) = categoryScore tc a + sourceScore ts a + recencyScore now a"
  by (simp add: score_article_def Let_def categoryScore_def sourceScore_def recencyScore_def
      ageInHours_def rank_score_def indexOf_first_encounter)

lemma sa_article_score_article [simp]: "sa_article (score_article now tc ts a) = a"
  by (simp add: score_article_def Let_def)

lemma set_score_all:
  "s \<in> set (score_all dn k tc ts arts) \<Longrightarrow>
     \<exists>j. sa_article s \<in> set arts \<and> s = score_article (dn j) tc ts (sa_article s)"
  by (induction arts arbitrary: k) auto

lemma scoredArticles_member:
  assumes "s \<in> set (scoredArticles dn ids tc ts recent)"
  shows "sa_article s \<in> set recent \<and> a_id (sa_article s) \<notin> set ids
         \<and> (\<exists>j. s = score_article (dn j) tc ts (sa_article s))"
proof -
  have "s \<in> set (score_all dn 0 tc ts (filter (\<lambda>article. a_id article \<notin> set ids) recent))"
    using assms set_slice0 by (fastforce simp: scoredArticles_def set_js_sort)
  from set_score_all[OF this] show ?thesis by auto
qed

lemma length_scoredArticles: "length (scoredArticles dn ids tc ts recent) \<le> 20"
  using length_slice0_nonneg[of 20] by (fastforce simp: scoredArticles_def)

lemma generate_recommendations_success:
  assumes "generate_recommendations be req = \<lparr>status = st, body = Recommendations recs tc ts\<rparr>"
  shows "\<exists>h uid acts recent.
           req_authorization req = Some h
         \<and> getUser be (replace_first ''Bearer '' [] h) = (Some uid, None)
         \<and> data (select_activities be uid) = Some acts
         \<and> data (select_recent_articles be) = Some recent
         \<and> tc = topCategories acts \<and> ts = topSources acts
         \<and> recs = scoredArticles (dateNow be)
                    (case data (select_interacted be uid) of None \<Rightarrow> [] | Some ids \<Rightarrow> ids)
                    tc ts recent"
  using assms
  by (auto simp: generate_recommendations_def recommend_try_def Let_def
      split: if_splits option.splits sum.splits prod.splits)



lemma distinct_map_sort_insert:
  "distinct (map f (sort_insert cmp x ys)) \<longleftrightarrow> f x \<notin> f ` set ys \<and> distinct (map f ys)"
  by (induction ys) (auto simp: set_sort_insert)

lemma distinct_map_js_sort: "distinct (map f (js_sort cmp xs)) \<longleftrightarrow> distinct (map f xs)"
  by (induction xs) (auto simp: distinct_map_sort_insert set_js_sort)

lemma distinct_top_labels: "distinct (top_labels (accumulate label acts []))"
proof -
  obtain n where n: "slice0 (js_sort by_weight_desc (accumulate label acts [])) 3
                   = take n (js_sort by_weight_desc (accumulate label acts []))"
    using slice0_take by blast
  have "distinct (map fst (js_sort by_weight_desc (accumulate label acts [])))"
    using accumulate_distinct by (simp only: distinct_map_js_sort)
  then have "distinct (take n (map fst (js_sort by_weight_desc (accumulate label acts []))))"
    by (rule distinct_take)
  then show ?thesis by (simp add: top_labels_def n take_map)
qed


lemma top_labels_complete:
  "distinct (top_labels (accumulate label acts []))
   \<and> set (top_labels (accumulate label acts [])) \<subseteq> label ` set acts
   \<and> length (top_labels (accumulate label acts [])) = min 3 (card (label ` set acts))
   \<and> (\<forall>i j. i < j \<and> j < length (top_labels (accumulate label acts []))
         \<longrightarrow> ranks_before label acts (top_labels (accumulate label acts []) ! i)
                                      (top_labels (accumulate label acts []) ! j))
   \<and> (\<forall>t \<in> set (top_labels (accumulate label acts [])).
        \<forall>l \<in> label ` set acts - set (top_labels (accumulate label acts [])).
          ranks_before label acts t l)"
proof -
  let ?M = "accumulate label acts []"
  let ?pos = "\<lambda>p. first_encounter (map label acts) (fst p)"
  let ?R = "\<lambda>p q. snd q < snd p \<or> (snd p = snd q \<and> ?pos p < ?pos q)"
  let ?S = "js_sort by_weight_desc ?M"
  have top: "top_labels ?M = map fst (take 3 ?S)"
    by (simp add: top_labels_def slice0_nonneg)
  have "sorted_wrt (\<lambda>p q. ?pos p < ?pos q) ?M"
    using keys_accumulate_ordered[of label acts] by (simp add: sorted_wrt_map)
  then have sorted: "sorted_wrt ?R ?S"
    by (rule js_sort_sorted[where key=snd, OF by_weight_desc_cmp])
  have entry: "fst p \<in> label ` set acts \<and> snd p = accumulated_weight label acts (fst p)"
    if "p \<in> set ?S" for p
    using that accumulate_entry[of "fst p" "snd p" label acts] by (simp add: set_js_sort)
  have rb: "ranks_before label acts (fst p) (fst q)" if "?R p q" "p \<in> set ?S" "q \<in> set ?S" for p q
    using that(1) entry[OF that(2)] entry[OF that(3)] by (auto simp: ranks_before_def)
  have c1: "distinct (top_labels ?M)" by (rule distinct_top_labels)
  have c2: "set (top_labels ?M) \<subseteq> label ` set acts"
    unfolding top using entry by (auto dest: in_set_takeD)
  have "length ?M = card (label ` set acts)"
    using distinct_card[OF accumulate_distinct[of label acts]] keys_accumulate[of label acts]
    by simp
  then have c3: "length (top_labels ?M) = min 3 (card (label ` set acts))"
    by (simp add: top length_js_sort)
  have c4: "\<forall>i j. i < j \<and> j < length (top_labels ?M)
         \<longrightarrow> ranks_before label acts (top_labels ?M ! i) (top_labels ?M ! j)"
  proof (intro allI impI, elim conjE)
    fix i j assume ij: "i < j" and j: "j < length (top_labels ?M)"
    then have j': "j < length (take 3 ?S)" and i': "i < length (take 3 ?S)" by (simp_all add: top)
    have "sorted_wrt ?R (take 3 ?S)" using sorted by (rule sorted_wrt_take)
    then have "?R (take 3 ?S ! i) (take 3 ?S ! j)" using ij j' by (rule sorted_wrt_nth_less)
    moreover have "take 3 ?S ! i \<in> set ?S" "take 3 ?S ! j \<in> set ?S"
      using nth_mem[OF i'] nth_mem[OF j'] by (auto dest: in_set_takeD)
    ultimately have "ranks_before label acts (fst (take 3 ?S ! i)) (fst (take 3 ?S ! j))"
      by (rule rb)
    then show "ranks_before label acts (top_labels ?M ! i) (top_labels ?M ! j)"
      using i' j' by (simp add: top)
  qed
  have c5: "\<forall>t \<in> set (top_labels ?M). \<forall>l \<in> label ` set acts - set (top_labels ?M).
          ranks_before label acts t l"
  proof (intro ballI)
    fix t l assume t: "t \<in> set (top_labels ?M)" and l: "l \<in> label ` set acts - set (top_labels ?M)"
    from t obtain p where p: "p \<in> set (take 3 ?S)" "t = fst p" by (auto simp: top)
    from l have "l \<in> set (map fst ?M)" using keys_accumulate[of label acts] by simp
    then obtain q where q: "q \<in> set ?S" "l = fst q" by (auto simp: set_js_sort)
    have "q \<notin> set (take 3 ?S)" using l q(2) by (auto simp: top)
    then have qd: "q \<in> set (drop 3 ?S)"
      using q(1) set_append[of "take 3 ?S" "drop 3 ?S"] by (simp del: set_append)
    have "sorted_wrt ?R (take 3 ?S @ drop 3 ?S)" using sorted by simp
    then have "?R p q" using p(1) qd unfolding sorted_wrt_append by blast
    moreover have "p \<in> set ?S" using p(1) by (rule in_set_takeD)
    ultimately have "ranks_before label acts (fst p) (fst q)" using q(1) by (rule rb)
    then show "ranks_before label acts t l" by (simp add: p(2) q(2))
  qed
  show ?thesis by (intro conjI) (rule c1, rule c2, rule c3, rule c4, rule c5)
qed

lemma four_tie_topCategories:
  "topCategories four_tie_activities = [''technology'', ''sports'', ''world'']"
  by (simp add: topCategories_def top_labels_def categoryPreferences_def four_tie_activities_def
      Let_def get_or_zero_def activity_weight_def by_weight_desc_def slice0_def)

lemma four_tie_topSources:
  "topSources four_tie_activities = [''TechCrunch'', ''BBC News'', ''Reuters'']"
  by (simp add: topSources_def top_labels_def sourcePreferences_def four_tie_activities_def
      Let_def get_or_zero_def activity_weight_def by_weight_desc_def slice0_def)



section \<open>Lemmas: the semantic search handler\<close>

lemma by_similarity_desc_cmp: "by_similarity_desc a b \<le> 0 \<longleftrightarrow> s_score b \<le> s_score a"
  by (simp add: by_similarity_desc_def)

lemma trim_blank: "\<forall>c \<in> set s. is_space c \<Longrightarrow> trim s = []"
  by (auto simp: trim_def dest: set_dropWhileD)

lemma ranked_sorted: "sorted_wrt (\<lambda>x y. s_score y \<le> s_score x) (ranked cosine q candidates)"
  unfolding ranked_def by (rule js_sort_descending[where key=s_score, OF by_similarity_desc_cmp])

lemma set_ranked:
  "set (ranked cosine q candidates) = score_candidate cosine q ` {a \<in> set candidates. has_embedding a}"
  by (simp add: ranked_def set_js_sort)

lemma length_ranked: "length (ranked cosine q candidates) = length (filter has_embedding candidates)"
  by (simp add: ranked_def length_js_sort)

lemma s_score_score_candidate:
  "c_embedding a = Some e \<Longrightarrow>
     s_score (score_candidate cosine q a) = (case cosine q e of Some s \<Rightarrow> s | None \<Rightarrow> 0)"
  by (simp add: score_candidate_def Let_def)

lemma sorted_desc_position:
  assumes "sorted_wrt (\<lambda>x y. f y \<le> (f x :: real)) xs" "i < length xs" "j < length xs" "f (xs ! j) < f (xs ! i)"
  shows "i < j"
proof (rule ccontr)
  assume "\<not> i < j"
  then consider "j = i" | "j < i" by linarith
  then show False
  proof cases
    case 1
    with assms(4) show False by simp
  next
    case 2
    from sorted_wrt_nth_less[OF assms(1) 2 assms(2)] assms(4) show False by simp
  qed
qed

lemma fallback_scored:
  "select_candidates be = \<lparr>data = Some candidates, error = None\<rparr> \<Longrightarrow> candidates \<noteq> [] \<Longrightarrow>
     fallback be q k calls =
       (Inr \<lparr>status = 200,
             body = ScoredRecommendations (scored (cosineSimilarity be) q candidates k)\<rparr>,
        calls @ [SelectCandidates])"
  by (simp add: fallback_def Let_def)

lemma length_scored_nonneg: "0 \<le> k \<Longrightarrow> int (length (scored cosine q candidates k)) \<le> k"
  by (simp add: scored_def length_slice0_nonneg)

lemma length_scored_neg:
  "k < 0 \<Longrightarrow> length (scored cosine q candidates k) = length (ranked cosine q candidates) - nat (- k)"
  by (simp add: scored_def slice0_neg)

lemma fallback_length:
  assumes "fallback be q k calls = (Inr response, calls')" and "0 \<le> k"
  shows "int (search_output_length response) \<le> k"
  using assms length_scored_nonneg[of k "cosineSimilarity be" q]
  by (auto simp: fallback_def Let_def search_output_length_def
      split: option.splits if_splits)

lemma dot_examples: "dot [1] [1] = 1" "dot [1] [-1] = -1" "dot [-1] [-1] = 1"
  by (simp_all add: dot_def)

lemma cosine_model_examples:
  "cosine_model [1] [-1] = Some (-1)" "cosine_model [1] [1, 0] = None" "cosine_model [1] [1] = Some 1"
  by (simp_all add: cosine_model_def dot_examples)

lemma example_ranked:
  "ranked cosine_model [1]
     [example_candidate ''opposite'' (Some [-1]), example_candidate ''broken'' (Some [1, 0])]
   = [example_scored ''broken'' 0, example_scored ''opposite'' (-1)]"
  by (simp add: ranked_def has_embedding_def example_candidate_def example_scored_def
      score_candidate_def cosine_model_examples by_similarity_desc_def)

lemma example_search:
  "bert_search example_search_backend (search_request ''olympics'' k) =
     (\<lparr>status = 200,
       body = ScoredRecommendations
         (slice0 [example_scored ''broken'' 0, example_scored ''opposite'' (-1)]
            (case k of None \<Rightarrow> 10 | Some n \<Rightarrow> n))\<rparr>,
      [EmbeddingRequest ''olympics'', RpcMatchNews, SelectCandidates])"
proof -
  have t: "trim ''olympics'' = ''olympics''"
    by (simp add: trim_def is_space_def)
  have c: "example_candidate ''opposite'' (Some [-1]) \<noteq> example_candidate ''broken'' (Some [1, 0])"
    by (simp add: example_candidate_def)
  show ?thesis
    by (simp add: bert_search_def bert_search_try_def search_request_def t
        example_search_backend_def getOpenAIEmbedding_def fallback_def scored_def
        example_ranked Let_def)
qed

lemma bert_search_try_length:
  assumes "bert_search_try be req = (Inr response, calls)"
    and "0 \<le> requested_top_k req"
    and "\<forall>q rows. rpc_match_news be q (requested_top_k req) = RpcAnswer (Some rows) None
           \<longrightarrow> int (length rows) \<le> requested_top_k req"
  shows "int (search_output_length response) \<le> requested_top_k req"
proof -
  let ?k = "requested_top_k req"
  have k: "(case top_k (case req_json req of Some b \<Rightarrow> b | None \<Rightarrow> \<lparr>query = None, top_k = None\<rparr>)
            of Some n \<Rightarrow> n | None \<Rightarrow> 10) = ?k"
    by (simp add: requested_top_k_def split: option.splits)
  have fb: "int (search_output_length response) \<le> ?k"
    if "fallback be q ?k cs = (Inr response, calls)" for q cs
    using fallback_length[OF that assms(2)] .
  show ?thesis
    using assms(1,3) fb assms(2)
    unfolding bert_search_try_def Let_def k
    by (auto simp: search_output_length_def
        split: if_splits prod.splits sum.splits rpc_outcome.splits option.splits)
qed

lemma bert_search_length:
  assumes "0 \<le> requested_top_k req"
    and "\<forall>q rows. rpc_match_news be q (requested_top_k req) = RpcAnswer (Some rows) None
           \<longrightarrow> int (length rows) \<le> requested_top_k req"
  shows "int (search_output_length (fst (bert_search be req))) \<le> requested_top_k req"
proof (cases "search_method req = ''OPTIONS''")
  case True
  then show ?thesis using assms(1) by (simp add: bert_search_def search_output_length_def)
next
  case False
  obtain r calls where r: "bert_search_try be req = (r, calls)" by (cases "bert_search_try be req")
  show ?thesis
  proof (cases r)
    case (Inl e)
    then show ?thesis using False r assms(1)
      by (simp add: bert_search_def search_output_length_def)
  next
    case (Inr response)
    then show ?thesis
      using False r bert_search_try_length[OF _ assms] by (simp add: bert_search_def)
  qed
qed

lemma bert_search_rpc_rows:
  assumes "fst (bert_search be req) = \<lparr>status = st, body = RpcRecommendations rows\<rparr>"
  shows "\<exists>q. rpc_match_news be q (requested_top_k req) = RpcAnswer (Some rows) None"
proof -
  have k: "(case top_k (case req_json req of Some b \<Rightarrow> b | None \<Rightarrow> \<lparr>query = None, top_k = None\<rparr>)
            of Some n \<Rightarrow> n | None \<Rightarrow> 10) = requested_top_k req"
    by (simp add: requested_top_k_def split: option.splits)
  have fb: "fallback be q kk cs \<noteq> (Inr \<lparr>status = st, body = RpcRecommendations rows\<rparr>, calls)"
    for q kk cs calls
    by (auto simp: fallback_def Let_def split: option.splits if_splits)
  show ?thesis
    using assms
    unfolding bert_search_def bert_search_try_def Let_def k
    by (auto simp: fb split: if_splits prod.splits sum.splits rpc_outcome.splits option.splits)
qed

lemma recommendation_length: "recommendation_output_length (generate_recommendations be req) \<le> 20"
proof (cases "body (generate_recommendations be req)")
  case (Recommendations recs tc ts)
  then have "generate_recommendations be req
               = \<lparr>status = status (generate_recommendations be req),
                  body = Recommendations recs tc ts\<rparr>"
    by (cases "generate_recommendations be req") simp
  from generate_recommendations_success[OF this] Recommendations show ?thesis
    by (auto simp: recommendation_output_length_def length_scoredArticles)
qed (simp_all add: recommendation_output_length_def)


section \<open>Lemmas: the news-fetch handler\<close>

lemma includes_str_sublist: "includes_str s sub \<longleftrightarrow> sublist sub s"
  by (induction s) (auto simp: sublist_Cons_right)

lemma transform_article_category:
  "t_category (transform_article article)
     = (if sublist ''sport'' (toLowerCase (t_title (transform_article article)))
        then ''sports'' else ''technology'')"
  by (simp add: transform_article_def includes_str_sublist)

lemma fetch_news_articles:
  assumes "fetch_news m key fetched = \<lparr>status = st, body = Articles arts n\<rparr>"
  shows "\<exists>answer. fetched = Inr answer \<and> arts = transformedArticles (answer_articles answer)
           \<and> n = length arts \<and> st = 200"
  using assms
  by (auto simp: fetch_news_def fetch_news_try_def Let_def split: if_splits sum.splits)

lemma lower_sports_day: "toLowerCase ''Sports Day Returns'' = ''sports day returns''"
  by code_simp

lemma sports_day_title: "t_title (transform_article sports_day) = ''Sports Day Returns''"
  by (simp add: transform_article_def sports_day_def)

lemma sports_day_category: "t_category (transform_article sports_day) = ''sports''"
  by (simp add: transform_article_def sports_day_def lower_sports_day)

lemma sports_day_kept: "keep_article sports_day"
  by (simp add: keep_article_def sports_day_def)

lemma sports_day_fetched:
  "fetch_news ''GET'' (Some ''key'') (news_answer [sports_day])
     = \<lparr>status = 200, body = Articles [transform_article sports_day] 1\<rparr>"
  by (simp add: fetch_news_def fetch_news_try_def news_answer_def transformedArticles_def
      sports_day_kept Let_def)



section \<open>Claims\<close>

text \<open>
  C1. The score of a candidate article is categoryScore + sourceScore + recencyScore, where
  categoryScore is \<open>(3 - i) * 10\<close> when the article's category stands at rank \<open>i\<close>
  (0-indexed) of the top-category list and 0 when it is not in the list, sourceScore is
  \<open>(3 - i) * 5\<close> for the source in the top-source list likewise, and recencyScore is
  \<open>max(0, 24 - ageInHours)\<close>, the age being measured when the article is scored. Every
  returned recommendation carries this score, the top lists of the handler have no
  repeated label, and with the top categories technology, sports, world an article of
  category sports has categoryScore 20.
\<close>

theorem recommendation_score_formula:
  "sa_score (score_article now tc ts a) = categoryScore tc a + sourceScore ts a + recencyScore now a
   \<and> (\<forall>i. distinct tc \<and> i < length tc \<and> tc ! i = a_category a
          \<longrightarrow> categoryScore tc a = (3 - real i) * 10)
   \<and> (a_category a \<notin> set tc \<longrightarrow> categoryScore tc a = 0)
   \<and> (\<forall>i. distinct ts \<and> i < length ts \<and> ts ! i = a_source a
          \<longrightarrow> sourceScore ts a = (3 - real i) * 5)
   \<and> (a_source a \<notin> set ts \<longrightarrow> sourceScore ts a = 0)
   \<and> recencyScore now a = max 0 (24 - ageInHours now a)
   \<and> (\<forall>s \<in> set (scoredArticles clock ids tc ts recent).
          \<exists>k. sa_score s = categoryScore tc (sa_article s) + sourceScore ts (sa_article s)
                            + recencyScore (clock k) (sa_article s))
   \<and> distinct (topCategories acts) \<and> distinct (topSources acts)
   \<and> categoryScore [''technology'', ''sports'', ''world''] (a\<lparr>a_category := ''sports''\<rparr>) = 20"
proof -
  have dist: "distinct (topCategories acts) \<and> distinct (topSources acts)"
    by (simp add: topCategories_def topSources_def categoryPreferences_accumulate
        sourcePreferences_accumulate distinct_top_labels)
  have rank: "rank_score xs (xs ! i) p = (3 - real i) * real_of_int p"
    if "distinct xs" "i < length xs" for xs i p
    using that by (simp add: rank_score_def first_encounter_nth)
  have cat: "categoryScore tc a = (3 - real i) * 10"
    if "distinct tc \<and> i < length tc \<and> tc ! i = a_category a" for i
    using rank[of tc i 10] that by (auto simp: categoryScore_def)
  have src: "sourceScore ts a = (3 - real i) * 5"
    if "distinct ts \<and> i < length ts \<and> ts ! i = a_source a" for i
    using rank[of ts i 5] that by (auto simp: sourceScore_def)
  have out: "\<exists>k. sa_score s = categoryScore tc (sa_article s) + sourceScore ts (sa_article s)
                            + recencyScore (clock k) (sa_article s)"
    if "s \<in> set (scoredArticles clock ids tc ts recent)" for s
  proof -
    from scoredArticles_member[OF that] obtain j
      where "s = score_article (clock j) tc ts (sa_article s)" by blast
    then have "sa_score s = sa_score (score_article (clock j) tc ts (sa_article s))" by simp
    then show ?thesis unfolding score_article_formula by blast
  qed
  have ex: "categoryScore [''technology'', ''sports'', ''world''] (a\<lparr>a_category := ''sports''\<rparr>) = 20"
    by (simp add: categoryScore_def rank_score_def first_encounter_def)
  show ?thesis
    using score_article_formula[of now tc ts a] cat src out ex dist
    by (simp add: categoryScore_def sourceScore_def rank_score_def recencyScore_def)
qed

theorem recommendation_score_formula_witness:
  "distinct [''technology'', ''sports'', ''world''] \<and> (1::nat) < length [''technology'', ''sports'', ''world'']
   \<and> [''technology'', ''sports'', ''world''] ! 1 = a_category sports_article
   \<and> categoryScore [''technology'', ''sports'', ''world''] sports_article = (3 - real 1) * 10
   \<and> a_source sports_article \<notin> set [''BBC News'']
   \<and> sourceScore [''BBC News''] sports_article = 0
   \<and> sa_score (score_article 36000000 [''technology'', ''sports'', ''world''] [''BBC News'']
         sports_article) = 20 + 0 + 22"
proof -
  have h1: "distinct [''technology'', ''sports'', ''world''] \<and> (1::nat) < length [''technology'', ''sports'', ''world'']
   \<and> [''technology'', ''sports'', ''world''] ! 1 = a_category sports_article"
    by (simp add: sports_article_def)
  have h2: "a_source sports_article \<notin> set [''BBC News'']"
    by (simp add: sports_article_def)
  have r: "recencyScore 36000000 sports_article = 22"
    by (simp add: recencyScore_def ageInHours_def sports_article_def)
  note t = recommendation_score_formula[of 36000000 "[''technology'', ''sports'', ''world'']"
      "[''BBC News'']" sports_article "\<lambda>k. 0" "[]" "[]" "[]"]
  from t h1 have c: "categoryScore [''technology'', ''sports'', ''world''] sports_article
                      = (3 - real 1) * 10" by blast
  from t h2 have s: "sourceScore [''BBC News''] sports_article = 0" by blast
  have "sa_score (score_article 36000000 [''technology'', ''sports'', ''world''] [''BBC News'']
         sports_article) = categoryScore [''technology'', ''sports'', ''world''] sports_article
           + sourceScore [''BBC News''] sports_article + recencyScore 36000000 sports_article"
    by (rule t[THEN conjunct1])
  then have f: "sa_score (score_article 36000000 [''technology'', ''sports'', ''world''] [''BBC News'']
         sports_article) = 20 + 0 + 22"
    by (simp add: c s r)
  show ?thesis
    by (intro conjI) (rule h1[THEN conjunct1], rule h1[THEN conjunct2, THEN conjunct1],
        rule h1[THEN conjunct2, THEN conjunct2], rule c, rule h2, rule s, rule f)
qed


text \<open>
  C2. The aggregator weights each activity record additively by kind: a view counts 1, a
  click 3, a bookmark 5, a dwell of more than 30 seconds 2 and a dwell of at most 30
  seconds 1; the weight is added under the record's category and under its source, so
  each map holds, for every label seen, the sum of the weights of the records carrying it.
  On the click and the view of a technology article and the bookmark of a sports article
  the category weights are technology 4 and sports 5, and the top categories are sports,
  then technology.
\<close>

theorem aggregator_weights:
  "activity_weight (a\<lparr>activity_type := ''view''\<rparr>) = 1
   \<and> activity_weight (a\<lparr>activity_type := ''click''\<rparr>) = 3
   \<and> activity_weight (a\<lparr>activity_type := ''bookmark''\<rparr>) = 5
   \<and> activity_weight (a\<lparr>activity_type := ''dwell'', dwell_time := d\<rparr>)
       = (if 30 < d then 2 else 1)
   \<and> map_get (categoryPreferences acts) k
       = (if k \<in> article_category ` set acts
          then Some (accumulated_weight article_category acts k) else None)
   \<and> map_get (sourcePreferences acts) k
       = (if k \<in> article_source ` set acts
          then Some (accumulated_weight article_source acts k) else None)
   \<and> categoryPreferences
        [\<lparr>article_id = i1, activity_type = ''click'', dwell_time = d1,
          article_category = ''technology'', article_source = s1\<rparr>,
         \<lparr>article_id = i2, activity_type = ''view'', dwell_time = d2,
          article_category = ''technology'', article_source = s2\<rparr>,
         \<lparr>article_id = i3, activity_type = ''bookmark'', dwell_time = d3,
          article_category = ''sports'', article_source = s3\<rparr>]
       = [(''technology'', 4), (''sports'', 5)]
   \<and> topCategories
        [\<lparr>article_id = i1, activity_type = ''click'', dwell_time = d1,
          article_category = ''technology'', article_source = s1\<rparr>,
         \<lparr>article_id = i2, activity_type = ''view'', dwell_time = d2,
          article_category = ''technology'', article_source = s2\<rparr>,
         \<lparr>article_id = i3, activity_type = ''bookmark'', dwell_time = d3,
          article_category = ''sports'', article_source = s3\<rparr>]
       = [''sports'', ''technology'']"
proof -
  have w: "activity_weight (a\<lparr>activity_type := ''view''\<rparr>) = 1
     \<and> activity_weight (a\<lparr>activity_type := ''click''\<rparr>) = 3
     \<and> activity_weight (a\<lparr>activity_type := ''bookmark''\<rparr>) = 5
     \<and> activity_weight (a\<lparr>activity_type := ''dwell'', dwell_time := d\<rparr>)
         = (if 30 < d then 2 else 1)"
    by (simp add: activity_weight_def)
  have ex: "categoryPreferences
        [\<lparr>article_id = i1, activity_type = ''click'', dwell_time = d1,
          article_category = ''technology'', article_source = s1\<rparr>,
         \<lparr>article_id = i2, activity_type = ''view'', dwell_time = d2,
          article_category = ''technology'', article_source = s2\<rparr>,
         \<lparr>article_id = i3, activity_type = ''bookmark'', dwell_time = d3,
          article_category = ''sports'', article_source = s3\<rparr>]
       = [(''technology'', 4), (''sports'', 5)]"
    by (simp add: categoryPreferences_accumulate get_or_zero_def activity_weight_def)
  have top: "top_labels [(''technology'', 4), (''sports'', 5)] = [''sports'', ''technology'']"
    by (simp add: top_labels_def by_weight_desc_def slice0_def)
  have ex_top: "topCategories
        [\<lparr>article_id = i1, activity_type = ''click'', dwell_time = d1,
          article_category = ''technology'', article_source = s1\<rparr>,
         \<lparr>article_id = i2, activity_type = ''view'', dwell_time = d2,
          article_category = ''technology'', article_source = s2\<rparr>,
         \<lparr>article_id = i3, activity_type = ''bookmark'', dwell_time = d3,
          article_category = ''sports'', article_source = s3\<rparr>]
       = [''sports'', ''technology'']"
    unfolding topCategories_def ex by (rule top)
  have cat: "map_get (categoryPreferences acts) k
       = (if k \<in> article_category ` set acts
          then Some (accumulated_weight article_category acts k) else None)"
    unfolding categoryPreferences_accumulate by (rule map_get_accumulate)
  have src: "map_get (sourcePreferences acts) k
       = (if k \<in> article_source ` set acts
          then Some (accumulated_weight article_source acts k) else None)"
    unfolding sourcePreferences_accumulate by (rule map_get_accumulate)
  show ?thesis
    using w cat src ex ex_top by blast
qed






text \<open>
  C4. The preference ranking is stable. The top-category list and the top-source list hold
  the three labels that rank first among all the labels of the input (all of them when
  there are fewer), each once, in descending order of accumulated weight, and of two
  labels of equal accumulated weight the one first encountered in the input comes first:
  every listed label ranks before those listed after it and before every label that is
  not listed.
\<close>

theorem preference_ranking_stable:
  "distinct (topCategories acts)
   \<and> set (topCategories acts) \<subseteq> article_category ` set acts
   \<and> length (topCategories acts) = min 3 (card (article_category ` set acts))
   \<and> (\<forall>i j. i < j \<and> j < length (topCategories acts)
         \<longrightarrow> ranks_before article_category acts (topCategories acts ! i) (topCategories acts ! j))
   \<and> (\<forall>t \<in> set (topCategories acts).
        \<forall>l \<in> article_category ` set acts - set (topCategories acts).
          ranks_before article_category acts t l)
   \<and> distinct (topSources acts)
   \<and> set (topSources acts) \<subseteq> article_source ` set acts
   \<and> length (topSources acts) = min 3 (card (article_source ` set acts))
   \<and> (\<forall>i j. i < j \<and> j < length (topSources acts)
         \<longrightarrow> ranks_before article_source acts (topSources acts ! i) (topSources acts ! j))
   \<and> (\<forall>t \<in> set (topSources acts).
        \<forall>l \<in> article_source ` set acts - set (topSources acts).
          ranks_before article_source acts t l)"
proof -
  note c = top_labels_complete[of article_category acts,
      folded categoryPreferences_accumulate topCategories_def]
  note s = top_labels_complete[of article_source acts,
      folded sourcePreferences_accumulate topSources_def]
  show ?thesis
    by (intro conjI)
      (rule c[THEN conjunct1],
       rule c[THEN conjunct2, THEN conjunct1],
       rule c[THEN conjunct2, THEN conjunct2, THEN conjunct1],
       rule c[THEN conjunct2, THEN conjunct2, THEN conjunct2, THEN conjunct1],
       rule c[THEN conjunct2, THEN conjunct2, THEN conjunct2, THEN conjunct2],
       rule s[THEN conjunct1],
       rule s[THEN conjunct2, THEN conjunct1],
       rule s[THEN conjunct2, THEN conjunct2, THEN conjunct1],
       rule s[THEN conjunct2, THEN conjunct2, THEN conjunct2, THEN conjunct1],
       rule s[THEN conjunct2, THEN conjunct2, THEN conjunct2, THEN conjunct2])
qed

theorem preference_ranking_stable_witness:
  "topCategories four_tie_activities = [''technology'', ''sports'', ''world'']
   \<and> topSources four_tie_activities = [''TechCrunch'', ''BBC News'', ''Reuters'']
   \<and> (0::nat) < 1 \<and> 1 < length (topCategories four_tie_activities)
   \<and> 1 < length (topSources four_tie_activities)
   \<and> ranks_before article_category four_tie_activities ''technology'' ''sports''
   \<and> ranks_before article_source four_tie_activities ''TechCrunch'' ''BBC News''
   \<and> ''health'' \<in> article_category ` set four_tie_activities - set (topCategories four_tie_activities)
   \<and> ranks_before article_category four_tie_activities ''world'' ''health''
   \<and> ''The Guardian'' \<in> article_source ` set four_tie_activities - set (topSources four_tie_activities)
   \<and> ranks_before article_source four_tie_activities ''Reuters'' ''The Guardian''"
proof -
  note t = preference_ranking_stable[of four_tie_activities]
  have h0: "(0::nat) < 1" by simp
  have h1: "1 < length (topCategories four_tie_activities)"
    by (simp add: four_tie_topCategories)
  have h2: "1 < length (topSources four_tie_activities)"
    by (simp add: four_tie_topSources)
  have "ranks_before article_category four_tie_activities
          (topCategories four_tie_activities ! 0) (topCategories four_tie_activities ! 1)"
    using t[THEN conjunct2, THEN conjunct2, THEN conjunct2, THEN conjunct1, THEN spec, THEN spec,
        THEN mp, OF conjI[OF h0 h1]] .
  then have r1: "ranks_before article_category four_tie_activities ''technology'' ''sports''"
    by (simp add: four_tie_topCategories)
  have "ranks_before article_source four_tie_activities
          (topSources four_tie_activities ! 0) (topSources four_tie_activities ! 1)"
    using t[THEN conjunct2, THEN conjunct2, THEN conjunct2, THEN conjunct2, THEN conjunct2,
        THEN conjunct2, THEN conjunct2, THEN conjunct2, THEN conjunct1, THEN spec, THEN spec,
        THEN mp, OF conjI[OF h0 h2]] .
  then have r2: "ranks_before article_source four_tie_activities ''TechCrunch'' ''BBC News''"
    by (simp add: four_tie_topSources)
  have m1: "''world'' \<in> set (topCategories four_tie_activities)"
    by (simp add: four_tie_topCategories)
  have m2: "''health'' \<in> article_category ` set four_tie_activities
                          - set (topCategories four_tie_activities)"
    unfolding four_tie_topCategories by (simp add: four_tie_activities_def)
  have r3: "ranks_before article_category four_tie_activities ''world'' ''health''"
    using t[THEN conjunct2, THEN conjunct2, THEN conjunct2, THEN conjunct2, THEN conjunct1,
        THEN bspec, THEN bspec, OF m1 m2] .
  have m3: "''Reuters'' \<in> set (topSources four_tie_activities)"
    by (simp add: four_tie_topSources)
  have m4: "''The Guardian'' \<in> article_source ` set four_tie_activities
                          - set (topSources four_tie_activities)"
    unfolding four_tie_topSources by (simp add: four_tie_activities_def)
  have r4: "ranks_before article_source four_tie_activities ''Reuters'' ''The Guardian''"
    using t[THEN conjunct2, THEN conjunct2, THEN conjunct2, THEN conjunct2, THEN conjunct2,
        THEN conjunct2, THEN conjunct2, THEN conjunct2, THEN conjunct2,
        THEN bspec, THEN bspec, OF m3 m4] .
  show ?thesis
    by (intro conjI)
      (rule four_tie_topCategories, rule four_tie_topSources, rule h0, rule h1, rule h2,
       rule r1, rule r2, rule m2, rule r3, rule m4, rule r4)
qed


text \<open>
  C5. A search request (one that is not the CORS preflight, which is answered before the body
  is read) whose query is absent, empty or made of white space only is answered with
  status 200 and the empty result list, and no external service is called on the way: in
  particular the embedding provider is never invoked.
\<close>

theorem blank_query_returns_empty:
  "search_method req \<noteq> ''OPTIONS'' \<and> (\<forall>c \<in> set (requested_query req). is_space c)
   \<longrightarrow> bert_search be req = (\<lparr>status = 200, body = ScoredRecommendations []\<rparr>, [])
       \<and> (\<forall>txt. EmbeddingRequest txt \<notin> set (snd (bert_search be req)))"
proof -
  have "bert_search be req = (\<lparr>status = 200, body = ScoredRecommendations []\<rparr>, [])"
    if m: "search_method req \<noteq> ''OPTIONS''" and b: "\<forall>c \<in> set (requested_query req). is_space c"
  proof -
    have q: "(case query (case req_json req of Some b \<Rightarrow> b | None \<Rightarrow> \<lparr>query = None, top_k = None\<rparr>)
             of Some s \<Rightarrow> s | None \<Rightarrow> []) = requested_query req"
      by (simp add: requested_query_def split: option.splits)
    have "trim (requested_query req) = []" using b by (rule trim_blank)
    then show ?thesis
      using m unfolding bert_search_def bert_search_try_def Let_def q by simp
  qed
  then show ?thesis by simp
qed

theorem blank_query_returns_empty_witness:
  "search_method (search_request [CHR '' '', CHR 0x09, CHR '' ''] None) \<noteq> ''OPTIONS''
   \<and> requested_query (search_request [CHR '' '', CHR 0x09, CHR '' ''] None) = [CHR '' '', CHR 0x09, CHR '' '']
   \<and> is_space (CHR '' '') \<and> is_space (CHR 0x09)
   \<and> bert_search example_search_backend (search_request [CHR '' '', CHR 0x09, CHR '' ''] None)
       = (\<lparr>status = 200, body = ScoredRecommendations []\<rparr>, [])"
proof -
  have m: "search_method (search_request [CHR '' '', CHR 0x09, CHR '' ''] None) \<noteq> ''OPTIONS''"
    by (simp add: search_request_def)
  have q: "requested_query (search_request [CHR '' '', CHR 0x09, CHR '' ''] None) = [CHR '' '', CHR 0x09, CHR '' '']"
    by (simp add: search_request_def requested_query_def)
  have s: "is_space (CHR '' '')" "is_space (CHR 0x09)"
    by (simp_all add: is_space_def)
  have b: "\<forall>c \<in> set (requested_query (search_request [CHR '' '', CHR 0x09, CHR '' ''] None)). is_space c"
    unfolding q using s by simp
  from blank_query_returns_empty[of "search_request [CHR '' '', CHR 0x09, CHR '' ''] None"
      example_search_backend] m b
  have "bert_search example_search_backend (search_request [CHR '' '', CHR 0x09, CHR '' ''] None)
       = (\<lparr>status = 200, body = ScoredRecommendations []\<rparr>, [])" by blast
  then show ?thesis
    by (intro conjI) (rule m, rule q, rule s(1), rule s(2), assumption)
qed


text \<open>
  C6, as amended. In the fallback path a candidate whose similarity computation fails does
  not abort the batch: it stays in the ranked list with score 0, the list has one entry
  per candidate that carries an embedding, and the fallback answers with status 200. The
  list is in descending order of score, an entry of strictly higher score always comes
  earlier, and the failed candidate's score is at most the score of every candidate whose
  computed similarity is not negative. A candidate whose computed similarity is negative
  has a lower score than the failed one and stands after it in the list.
\<close>

theorem failed_similarity_scores_zero:
  "a \<in> set candidates \<and> c_embedding a = Some e \<and> cosine q e = None
   \<longrightarrow> score_candidate cosine q a \<in> set (ranked cosine q candidates)
       \<and> s_score (score_candidate cosine q a) = 0
       \<and> length (ranked cosine q candidates) = length (filter has_embedding candidates)
       \<and> sorted_wrt (\<lambda>x y. s_score y \<le> s_score x) (ranked cosine q candidates)
       \<and> (\<forall>i j. i < length (ranked cosine q candidates) \<and> j < length (ranked cosine q candidates)
                 \<and> s_score (ranked cosine q candidates ! j) < s_score (ranked cosine q candidates ! i)
              \<longrightarrow> i < j)
       \<and> (\<forall>b e' s. b \<in> set candidates \<and> c_embedding b = Some e' \<and> cosine q e' = Some s \<and> 0 \<le> s
              \<longrightarrow> s_score (score_candidate cosine q a) \<le> s_score (score_candidate cosine q b))
       \<and> (\<forall>be k calls. select_candidates be = \<lparr>data = Some candidates, error = None\<rparr>
                 \<and> cosineSimilarity be = cosine
              \<longrightarrow> fallback (be :: 'r SearchBackend) q k calls =
                    (Inr \<lparr>status = 200,
                          body = ScoredRecommendations (slice0 (ranked cosine q candidates) k)\<rparr>,
                     calls @ [SelectCandidates]))
       \<and> (\<forall>b e' s. b \<in> set candidates \<and> c_embedding b = Some e' \<and> cosine q e' = Some s \<and> s < 0
              \<longrightarrow> s_score (score_candidate cosine q b) < s_score (score_candidate cosine q a)
                \<and> (\<forall>i j. i < length (ranked cosine q candidates)
                          \<and> j < length (ranked cosine q candidates)
                          \<and> ranked cosine q candidates ! i = score_candidate cosine q a
                          \<and> ranked cosine q candidates ! j = score_candidate cosine q b
                       \<longrightarrow> i < j))"
proof (intro impI, elim conjE)
  assume a: "a \<in> set candidates" and e: "c_embedding a = Some e" and f: "cosine q e = None"
  have mem: "score_candidate cosine q a \<in> set (ranked cosine q candidates)"
    using a e by (simp add: set_ranked has_embedding_def)
  have zero: "s_score (score_candidate cosine q a) = 0"
    using s_score_score_candidate[OF e, of cosine q] f by simp
  have pos: "\<forall>i j. i < length (ranked cosine q candidates) \<and> j < length (ranked cosine q candidates)
                 \<and> s_score (ranked cosine q candidates ! j) < s_score (ranked cosine q candidates ! i)
              \<longrightarrow> i < j"
    using sorted_desc_position[OF ranked_sorted[of cosine q candidates]] by blast
  have le: "\<forall>b e' s. b \<in> set candidates \<and> c_embedding b = Some e' \<and> cosine q e' = Some s \<and> 0 \<le> s
              \<longrightarrow> s_score (score_candidate cosine q a) \<le> s_score (score_candidate cosine q b)"
    using zero by (auto simp: s_score_score_candidate)
  have ne: "candidates \<noteq> []" using a by auto
  have fb: "\<forall>be k calls. select_candidates be = \<lparr>data = Some candidates, error = None\<rparr>
                 \<and> cosineSimilarity be = cosine
              \<longrightarrow> fallback (be :: 'r SearchBackend) q k calls =
                    (Inr \<lparr>status = 200,
                          body = ScoredRecommendations (slice0 (ranked cosine q candidates) k)\<rparr>,
                     calls @ [SelectCandidates])"
    using fallback_scored[OF _ ne] by (auto simp: scored_def)
  have neg: "\<forall>b e' s. b \<in> set candidates \<and> c_embedding b = Some e' \<and> cosine q e' = Some s \<and> s < 0
              \<longrightarrow> s_score (score_candidate cosine q b) < s_score (score_candidate cosine q a)
                \<and> (\<forall>i j. i < length (ranked cosine q candidates)
                          \<and> j < length (ranked cosine q candidates)
                          \<and> ranked cosine q candidates ! i = score_candidate cosine q a
                          \<and> ranked cosine q candidates ! j = score_candidate cosine q b
                       \<longrightarrow> i < j)"
  proof (intro allI impI, elim conjE)
    fix b e' s
    assume "b \<in> set candidates" and "c_embedding b = Some e'" and "cosine q e' = Some s"
      and "s < 0"
    then have lt: "s_score (score_candidate cosine q b) < s_score (score_candidate cosine q a)"
      using zero by (simp add: s_score_score_candidate)
    have "i < j"
      if "i < length (ranked cosine q candidates) \<and> j < length (ranked cosine q candidates)
          \<and> ranked cosine q candidates ! i = score_candidate cosine q a
          \<and> ranked cosine q candidates ! j = score_candidate cosine q b" for i j
      using that lt sorted_desc_position[OF ranked_sorted[of cosine q candidates], of i j] by simp
    with lt show "s_score (score_candidate cosine q b) < s_score (score_candidate cosine q a)
                \<and> (\<forall>i j. i < length (ranked cosine q candidates)
                          \<and> j < length (ranked cosine q candidates)
                          \<and> ranked cosine q candidates ! i = score_candidate cosine q a
                          \<and> ranked cosine q candidates ! j = score_candidate cosine q b
                       \<longrightarrow> i < j)"
      by blast
  qed
  show "score_candidate cosine q a \<in> set (ranked cosine q candidates)
       \<and> s_score (score_candidate cosine q a) = 0
       \<and> length (ranked cosine q candidates) = length (filter has_embedding candidates)
       \<and> sorted_wrt (\<lambda>x y. s_score y \<le> s_score x) (ranked cosine q candidates)
       \<and> (\<forall>i j. i < length (ranked cosine q candidates) \<and> j < length (ranked cosine q candidates)
                 \<and> s_score (ranked cosine q candidates ! j) < s_score (ranked cosine q candidates ! i)
              \<longrightarrow> i < j)
       \<and> (\<forall>b e' s. b \<in> set candidates \<and> c_embedding b = Some e' \<and> cosine q e' = Some s \<and> 0 \<le> s
              \<longrightarrow> s_score (score_candidate cosine q a) \<le> s_score (score_candidate cosine q b))
       \<and> (\<forall>be k calls. select_candidates be = \<lparr>data = Some candidates, error = None\<rparr>
                 \<and> cosineSimilarity be = cosine
              \<longrightarrow> fallback (be :: 'r SearchBackend) q k calls =
                    (Inr \<lparr>status = 200,
                          body = ScoredRecommendations (slice0 (ranked cosine q candidates) k)\<rparr>,
                     calls @ [SelectCandidates]))
       \<and> (\<forall>b e' s. b \<in> set candidates \<and> c_embedding b = Some e' \<and> cosine q e' = Some s \<and> s < 0
              \<longrightarrow> s_score (score_candidate cosine q b) < s_score (score_candidate cosine q a)
                \<and> (\<forall>i j. i < length (ranked cosine q candidates)
                          \<and> j < length (ranked cosine q candidates)
                          \<and> ranked cosine q candidates ! i = score_candidate cosine q a
                          \<and> ranked cosine q candidates ! j = score_candidate cosine q b
                       \<longrightarrow> i < j))"
    by (intro conjI) (rule mem, rule zero, rule length_ranked, rule ranked_sorted, rule pos,
        rule le, rule fb, rule neg)
qed

theorem failed_similarity_scores_zero_witness:
  "example_candidate ''broken'' (Some [1, 0])
     \<in> set [example_candidate ''broken'' (Some [1, 0]), example_candidate ''same'' (Some [1])]
   \<and> c_embedding (example_candidate ''broken'' (Some [1, 0])) = Some [1, 0]
   \<and> cosine_model [1] [1, 0] = None
   \<and> example_candidate ''same'' (Some [1])
     \<in> set [example_candidate ''broken'' (Some [1, 0]), example_candidate ''same'' (Some [1])]
   \<and> c_embedding (example_candidate ''same'' (Some [1])) = Some [1]
   \<and> cosine_model [1] [1] = Some 1
   \<and> s_score (score_candidate cosine_model [1] (example_candidate ''broken'' (Some [1, 0]))) = 0
   \<and> s_score (score_candidate cosine_model [1] (example_candidate ''broken'' (Some [1, 0])))
       \<le> s_score (score_candidate cosine_model [1] (example_candidate ''same'' (Some [1])))"
proof -
  let ?broken = "example_candidate ''broken'' (Some [1, 0])"
  let ?same = "example_candidate ''same'' (Some [1])"
  have h1: "?broken \<in> set [?broken, ?same]" by simp
  have h2: "c_embedding ?broken = Some [1, 0]" by (simp add: example_candidate_def)
  have h3: "cosine_model [1] [1, 0] = None" by (rule cosine_model_examples)
  have g1: "?same \<in> set [?broken, ?same]" by simp
  have g2: "c_embedding ?same = Some [1]" by (simp add: example_candidate_def)
  have g3: "cosine_model [1] [1] = Some 1" by (rule cosine_model_examples)
  note t = failed_similarity_scores_zero[of ?broken "[?broken, ?same]" "[1, 0]" cosine_model "[1]",
      THEN mp, OF conjI[OF h1 conjI[OF h2 h3]]]
  have z: "s_score (score_candidate cosine_model [1] ?broken) = 0"
    by (rule t[THEN conjunct2, THEN conjunct1])
  have "\<forall>b e' s. b \<in> set [?broken, ?same] \<and> c_embedding b = Some e' \<and> cosine_model [1] e' = Some s
            \<and> 0 \<le> s
          \<longrightarrow> s_score (score_candidate cosine_model [1] ?broken)
                \<le> s_score (score_candidate cosine_model [1] b)"
    by (rule t[THEN conjunct2, THEN conjunct2, THEN conjunct2, THEN conjunct2, THEN conjunct2,
          THEN conjunct1])
  then have le: "s_score (score_candidate cosine_model [1] ?broken)
                  \<le> s_score (score_candidate cosine_model [1] ?same)"
    using g1 g2 g3 by (elim allE[where x="?same"] allE[where x="[1]"] allE[where x=1]) simp
  show ?thesis
    by (intro conjI) (rule h1, rule h2, rule h3, rule g1, rule g2, rule g3, rule z, rule le)
qed

text \<open>
  C6 as stated fails: 0 is not the least score. A candidate whose similarity is computed
  successfully and is negative (here \<open>-1\<close>, the embedding opposite to the query) is ranked
  below the candidate whose computation failed, although it came first in the input.
\<close>

theorem failed_similarity_counterexample:
  "c_embedding (example_candidate ''broken'' (Some [1, 0])) = Some [1, 0]
   \<and> cosine_model [1] [1, 0] = None
   \<and> c_embedding (example_candidate ''opposite'' (Some [-1])) = Some [-1]
   \<and> cosine_model [1] [-1] = Some (-1)
   \<and> ranked cosine_model [1]
        [example_candidate ''opposite'' (Some [-1]), example_candidate ''broken'' (Some [1, 0])]
       = [example_scored ''broken'' 0, example_scored ''opposite'' (-1)]
   \<and> \<not> s_score (example_scored ''broken'' 0) \<le> s_score (example_scored ''opposite'' (-1))
   \<and> bert_search example_search_backend (search_request ''olympics'' None)
       = (\<lparr>status = 200,
           body = ScoredRecommendations
                    [example_scored ''broken'' 0, example_scored ''opposite'' (-1)]\<rparr>,
          [EmbeddingRequest ''olympics'', RpcMatchNews, SelectCandidates])"
proof -
  have s: "slice0 [example_scored ''broken'' 0, example_scored ''opposite'' (-1)] 10
            = [example_scored ''broken'' 0, example_scored ''opposite'' (-1)]"
    by (simp add: slice0_def)
  have b: "bert_search example_search_backend (search_request ''olympics'' None)
       = (\<lparr>status = 200,
           body = ScoredRecommendations
                    [example_scored ''broken'' 0, example_scored ''opposite'' (-1)]\<rparr>,
          [EmbeddingRequest ''olympics'', RpcMatchNews, SelectCandidates])"
    using example_search[of None] by (simp add: s)
  have n: "\<not> s_score (example_scored ''broken'' 0) \<le> s_score (example_scored ''opposite'' (-1))"
    by (simp add: example_scored_def)
  have e: "c_embedding (example_candidate ''broken'' (Some [1, 0])) = Some [1, 0]"
     "c_embedding (example_candidate ''opposite'' (Some [-1])) = Some [-1]"
    by (simp_all add: example_candidate_def)
  show ?thesis
    by (intro conjI) (rule e(1), rule cosine_model_examples(2), rule e(2),
        rule cosine_model_examples(1), rule example_ranked, rule n, rule b)
qed


text \<open>
  C7, as amended. The recommendation list has at most 20 entries for every candidate pool.
  The search result has at most \<open>top_k\<close> entries whenever the requested \<open>top_k\<close> is not
  negative and the \<open>match_news\<close> call returns at most \<open>match_count\<close> rows: the fallback
  truncates with \<open>slice(0, top_k)\<close>, and the server-side path returns the rows of the call
  unchanged. For a negative \<open>top_k\<close> the fallback drops that many entries from the end of
  the ranked list instead.
\<close>

theorem output_length_bounds:
  "recommendation_output_length (generate_recommendations be req) \<le> 20
   \<and> (0 \<le> k \<longrightarrow> int (length (scored cosine q candidates k)) \<le> k)
   \<and> (k < 0 \<longrightarrow> length (scored cosine q candidates k)
                      = length (ranked cosine q candidates) - nat (- k))
   \<and> (0 \<le> requested_top_k sreq
        \<and> (\<forall>q rows. rpc_match_news sbe q (requested_top_k sreq) = RpcAnswer (Some rows) None
                \<longrightarrow> int (length rows) \<le> requested_top_k sreq)
      \<longrightarrow> int (search_output_length (fst (bert_search sbe sreq))) \<le> requested_top_k sreq)
   \<and> (fst (bert_search sbe sreq) = \<lparr>status = st, body = RpcRecommendations rows\<rparr>
      \<longrightarrow> (\<exists>q. rpc_match_news sbe q (requested_top_k sreq) = RpcAnswer (Some rows) None))"
  using recommendation_length[of be req] length_scored_nonneg[of k cosine q candidates]
    length_scored_neg[of k cosine q candidates]
    bert_search_length[of sreq sbe] bert_search_rpc_rows[of sbe sreq st rows]
  by blast

theorem output_length_bounds_witness:
  "(0::int) \<le> requested_top_k (search_request ''olympics'' (Some 2))
   \<and> rpc_match_news indexed_backend [1] (requested_top_k (search_request ''olympics'' (Some 2)))
       = RpcAnswer (Some [(), ()]) None
   \<and> int (length [(), ()]) \<le> requested_top_k (search_request ''olympics'' (Some 2))
   \<and> int (search_output_length (fst (bert_search indexed_backend (search_request ''olympics'' (Some 2)))))
       \<le> requested_top_k (search_request ''olympics'' (Some 2))
   \<and> recommendation_output_length (generate_recommendations example_backend example_request) \<le> 20"
proof -
  let ?r = "search_request ''olympics'' (Some 2)"
  have k: "requested_top_k ?r = 2" by (simp add: requested_top_k_def search_request_def)
  have h1: "(0::int) \<le> requested_top_k ?r" by (simp add: k)
  have rpc: "rpc_match_news indexed_backend q 2 = RpcAnswer (Some [(), ()]) None" for q
    by (simp add: indexed_backend_def example_search_backend_def)
  have h2: "\<forall>q rows. rpc_match_news indexed_backend q (requested_top_k ?r) = RpcAnswer (Some rows) None
                \<longrightarrow> int (length rows) \<le> requested_top_k ?r"
    unfolding k by (auto simp: rpc)
  note t = output_length_bounds[of example_backend example_request 0 cosine_model "[]" "[]"
      ?r indexed_backend 200 "[]"]
  from t h1 h2 have s: "int (search_output_length (fst (bert_search indexed_backend ?r)))
       \<le> requested_top_k ?r" by blast
  have r: "recommendation_output_length (generate_recommendations example_backend example_request) \<le> 20"
    by (rule t[THEN conjunct1])
  have r2: "rpc_match_news indexed_backend [1] (requested_top_k ?r) = RpcAnswer (Some [(), ()]) None"
    unfolding k by (rule rpc)
  have l: "int (length [(), ()]) \<le> requested_top_k ?r" by (simp add: k)
  show ?thesis by (intro conjI) (rule h1, rule r2, rule l, rule s, rule r)
qed

text \<open>
  C7 as stated fails for a negative \<open>top_k\<close>: \<open>slice(0, -1)\<close> drops the last element
  instead of truncating, so two stored candidates give one result, which is more than
  \<open>-1\<close>.
\<close>

theorem search_length_counterexample:
  "requested_top_k (search_request ''olympics'' (Some (-1))) = -1
   \<and> fst (bert_search example_search_backend (search_request ''olympics'' (Some (-1))))
       = \<lparr>status = 200, body = ScoredRecommendations [example_scored ''broken'' 0]\<rparr>
   \<and> \<not> int (search_output_length
              (fst (bert_search example_search_backend (search_request ''olympics'' (Some (-1))))))
         \<le> requested_top_k (search_request ''olympics'' (Some (-1)))"
proof -
  have k: "requested_top_k (search_request ''olympics'' (Some (-1))) = -1"
    by (simp add: requested_top_k_def search_request_def)
  have s: "slice0 [example_scored ''broken'' 0, example_scored ''opposite'' (-1)] (-1)
            = [example_scored ''broken'' 0]"
    by (simp add: slice0_def)
  have b: "fst (bert_search example_search_backend (search_request ''olympics'' (Some (-1))))
       = \<lparr>status = 200, body = ScoredRecommendations [example_scored ''broken'' 0]\<rparr>"
    using example_search[of "Some (-1)"] by (simp add: s)
  have n: "\<not> int (search_output_length
              (fst (bert_search example_search_backend (search_request ''olympics'' (Some (-1))))))
         \<le> requested_top_k (search_request ''olympics'' (Some (-1)))"
    unfolding b k by (simp add: search_output_length_def)
  show ?thesis by (intro conjI) (rule k, rule b, rule n)
qed


text \<open>
  The condition on the \<open>match_news\<close> call in C7 is needed: the handler does not truncate
  the rows of the call, so three rows returned for a \<open>top_k\<close> of 2 are three results.
\<close>

theorem search_length_rpc_example:
  "requested_top_k (search_request ''olympics'' (Some 2)) = 2
   \<and> fst (bert_search overfull_backend (search_request ''olympics'' (Some 2)))
       = \<lparr>status = 200, body = RpcRecommendations [(), (), ()]\<rparr>
   \<and> \<not> int (search_output_length
              (fst (bert_search overfull_backend (search_request ''olympics'' (Some 2)))))
         \<le> requested_top_k (search_request ''olympics'' (Some 2))"
proof -
  have k: "requested_top_k (search_request ''olympics'' (Some 2)) = 2"
    by (simp add: requested_top_k_def search_request_def)
  have t: "trim ''olympics'' = ''olympics''"
    by (simp add: trim_def is_space_def)
  have b: "fst (bert_search overfull_backend (search_request ''olympics'' (Some 2)))
       = \<lparr>status = 200, body = RpcRecommendations [(), (), ()]\<rparr>"
    by (simp add: bert_search_def bert_search_try_def search_request_def t overfull_backend_def
        example_search_backend_def getOpenAIEmbedding_def Let_def)
  have n: "\<not> int (search_output_length
              (fst (bert_search overfull_backend (search_request ''olympics'' (Some 2)))))
         \<le> requested_top_k (search_request ''olympics'' (Some 2))"
    unfolding b k by (simp add: search_output_length_def)
  show ?thesis by (intro conjI) (rule k, rule b, rule n)
qed


text \<open>
  C8, as amended. Every article the news-fetch endpoint returns has category sports exactly
  when its title, converted to lower case, contains \<open>sport\<close> (the match ignores case), and
  category technology otherwise.
\<close>

theorem category_from_lowercased_title:
  "(\<forall>t \<in> set (transformedArticles articles).
       (t_category t = ''sports'' \<longleftrightarrow> sublist ''sport'' (toLowerCase (t_title t)))
     \<and> (t_category t = ''technology'' \<longleftrightarrow> \<not> sublist ''sport'' (toLowerCase (t_title t))))
   \<and> (fetch_news m key fetched = \<lparr>status = st, body = Articles arts n\<rparr> \<and> t \<in> set arts
      \<longrightarrow> (t_category t = ''sports'' \<longleftrightarrow> sublist ''sport'' (toLowerCase (t_title t)))
        \<and> (t_category t = ''technology'' \<longleftrightarrow> \<not> sublist ''sport'' (toLowerCase (t_title t))))"
proof -
  have pure: "(t_category t = ''sports'' \<longleftrightarrow> sublist ''sport'' (toLowerCase (t_title t)))
     \<and> (t_category t = ''technology'' \<longleftrightarrow> \<not> sublist ''sport'' (toLowerCase (t_title t)))"
    if "t \<in> set (transformedArticles articles)" for t articles
  proof -
    from that obtain article where "t = transform_article article"
      by (auto simp: transformedArticles_def)
    then show ?thesis using transform_article_category[of article] by simp
  qed
  have handler: "(t_category t = ''sports'' \<longleftrightarrow> sublist ''sport'' (toLowerCase (t_title t)))
        \<and> (t_category t = ''technology'' \<longleftrightarrow> \<not> sublist ''sport'' (toLowerCase (t_title t)))"
    if "fetch_news m key fetched = \<lparr>status = st, body = Articles arts n\<rparr>" "t \<in> set arts"
    using fetch_news_articles[OF that(1)] that(2) pure by blast
  show ?thesis using pure handler by blast
qed

theorem category_from_lowercased_title_witness:
  "fetch_news ''GET'' (Some ''key'') (news_answer [sports_day])
     = \<lparr>status = 200, body = Articles [transform_article sports_day] 1\<rparr>
   \<and> transform_article sports_day \<in> set [transform_article sports_day]
   \<and> sublist ''sport'' (toLowerCase (t_title (transform_article sports_day)))
   \<and> t_category (transform_article sports_day) = ''sports''"
proof -
  have m: "transform_article sports_day \<in> set [transform_article sports_day]" by simp
  have l: "sublist ''sport'' (toLowerCase (t_title (transform_article sports_day)))"
    unfolding sports_day_title lower_sports_day includes_str_sublist[symmetric] by simp
  note t = category_from_lowercased_title[of "[]" "''GET''" "Some ''key''" "news_answer [sports_day]"
      200 "[transform_article sports_day]" 1 "transform_article sports_day"]
  from t sports_day_fetched m l have c: "t_category (transform_article sports_day) = ''sports''"
    by blast
  show ?thesis by (intro conjI) (rule sports_day_fetched, rule m, rule l, rule c)
qed

text \<open>
  C8 as stated fails: the title \<open>Sports Day Returns\<close> does not contain the substring
  \<open>sport\<close>, and the article is classified as sports.
\<close>

theorem category_counterexample:
  "fetch_news ''GET'' (Some ''key'') (news_answer [sports_day])
     = \<lparr>status = 200, body = Articles [transform_article sports_day] 1\<rparr>
   \<and> t_title (transform_article sports_day) = ''Sports Day Returns''
   \<and> t_category (transform_article sports_day) = ''sports''
   \<and> \<not> sublist ''sport'' (t_title (transform_article sports_day))"
proof -
  have n: "\<not> sublist ''sport'' (t_title (transform_article sports_day))"
    unfolding sports_day_title includes_str_sublist[symmetric] by simp
  show ?thesis
    by (intro conjI) (rule sports_day_fetched, rule sports_day_title, rule sports_day_category, rule n)
qed


text \<open>
  C9. A recommendation request (one that is not the CORS preflight, which is answered before
  anything is read) that carries no \<open>Authorization\<close> header is answered with the generic
  500 response and not with 401: \<open>replace\<close> is called on the absent header, the
  \<open>TypeError\<close> reaches the outer \<open>catch\<close>, and the 401 branch is not reached.
\<close>

theorem missing_authorization_gives_500:
  "req_method req \<noteq> ''OPTIONS'' \<and> req_authorization req = None
   \<longrightarrow> recommend_try be req = Inl TypeError
       \<and> generate_recommendations be req
           = \<lparr>status = 500, body = RecError ''Internal server error''\<rparr>
       \<and> status (generate_recommendations be req) \<noteq> 401"
  by (simp add: generate_recommendations_def recommend_try_def)

theorem missing_authorization_gives_500_witness:
  "req_method anonymous_request \<noteq> ''OPTIONS'' \<and> req_authorization anonymous_request = None
   \<and> generate_recommendations example_backend anonymous_request
       = \<lparr>status = 500, body = RecError ''Internal server error''\<rparr>"
proof -
  have h: "req_method anonymous_request \<noteq> ''OPTIONS'' \<and> req_authorization anonymous_request = None"
    by (simp add: anonymous_request_def)
  from missing_authorization_gives_500[of anonymous_request example_backend] h
  show ?thesis by blast
qed


text \<open>
  C10. An activity record that is not a click, not a bookmark and not a dwell of more than 30
  seconds, whatever its kind, adds exactly 1 under its category and under its source. No
  record is rejected: the keys of each map are the labels of all the records, and every
  accumulated weight in the maps is strictly positive.
\<close>

theorem default_weight_one:
  "(activity_type a \<noteq> ''click'' \<and> activity_type a \<noteq> ''bookmark''
      \<and> \<not> (activity_type a = ''dwell'' \<and> 30 < dwell_time a)
    \<longrightarrow> activity_weight a = 1
        \<and> analyze [a] (cp, sp)
            = (map_set cp (article_category a) (get_or_zero cp (article_category a) + 1),
               map_set sp (article_source a) (get_or_zero sp (article_source a) + 1))
        \<and> map_get (fst (analyze [a] (cp, sp))) (article_category a)
            = Some (get_or_zero cp (article_category a) + 1)
        \<and> map_get (snd (analyze [a] (cp, sp))) (article_source a)
            = Some (get_or_zero sp (article_source a) + 1))
   \<and> fst ` set (categoryPreferences acts) = article_category ` set acts
   \<and> fst ` set (sourcePreferences acts) = article_source ` set acts
   \<and> (\<forall>(k, v) \<in> set (categoryPreferences acts). 0 < v)
   \<and> (\<forall>(k, v) \<in> set (sourcePreferences acts). 0 < v)"
proof -
  have one: "activity_weight a = 1"
    if "activity_type a \<noteq> ''click'' \<and> activity_type a \<noteq> ''bookmark''
      \<and> \<not> (activity_type a = ''dwell'' \<and> 30 < dwell_time a)"
    using that by (auto simp: activity_weight_def)
  have pos: "0 < v" if "(k, v) \<in> set (accumulate label acts [])" for label k v
    using accumulate_entry[OF that] accumulated_weight_pos[of k label acts] by auto
  have keys: "fst ` set (accumulate label acts []) = label ` set acts" for label
    using keys_accumulate[of label acts] by simp
  show ?thesis
    using one pos keys
    by (auto simp: categoryPreferences_accumulate sourcePreferences_accumulate
        map_get_map_set Let_def)
qed

theorem default_weight_one_witness:
  "activity_type scroll_activity \<noteq> ''click'' \<and> activity_type scroll_activity \<noteq> ''bookmark''
   \<and> \<not> (activity_type scroll_activity = ''dwell'' \<and> 30 < dwell_time scroll_activity)
   \<and> activity_weight scroll_activity = 1
   \<and> analyze [scroll_activity] ([(''sports'', 5)], []) = ([(''sports'', 6)], [(''CNN'', 1)])
   \<and> fst ` set (categoryPreferences tied_activities) = article_category ` set tied_activities"
proof -
  have h: "activity_type scroll_activity \<noteq> ''click'' \<and> activity_type scroll_activity \<noteq> ''bookmark''
   \<and> \<not> (activity_type scroll_activity = ''dwell'' \<and> 30 < dwell_time scroll_activity)"
    by (simp add: scroll_activity_def)
  have r: "map_set [(''sports'', 5)] (article_category scroll_activity)
             (get_or_zero [(''sports'', 5)] (article_category scroll_activity) + 1) = [(''sports'', 6)]"
     "map_set [] (article_source scroll_activity)
             (get_or_zero [] (article_source scroll_activity) + 1) = [(''CNN'', 1)]"
    by (simp_all add: scroll_activity_def get_or_zero_def)
  note t = default_weight_one[of scroll_activity "[(''sports'', 5)]" "[]" tied_activities]
  from t h have w: "activity_weight scroll_activity = 1" by blast
  from t h have "analyze [scroll_activity] ([(''sports'', 5)], [])
            = (map_set [(''sports'', 5)] (article_category scroll_activity)
                 (get_or_zero [(''sports'', 5)] (article_category scroll_activity) + 1),
               map_set [] (article_source scroll_activity)
                 (get_or_zero [] (article_source scroll_activity) + 1))" by blast
  then have an: "analyze [scroll_activity] ([(''sports'', 5)], [])
                  = ([(''sports'', 6)], [(''CNN'', 1)])"
    by (simp only: r)
  have keys: "fst ` set (categoryPreferences tied_activities)
                = article_category ` set tied_activities"
    by (rule t[THEN conjunct2, THEN conjunct1])
  show ?thesis using h w an keys by (intro conjI) simp_all
qed

end
